theory Spec2Isabelle
  imports Main
begin

section \<open>Strings and paths (Go standard library, Unix separator)\<close>

text \<open>
  The program calls \<^verbatim>\<open>strings.SplitN(i, ":", 2)\<close>, \<^verbatim>\<open>strings.Split(s, ",")\<close>,
  \<^verbatim>\<open>strings.TrimPrefix\<close>, \<^verbatim>\<open>filepath.Ext\<close>, \<^verbatim>\<open>filepath.Base\<close> and
  \<^verbatim>\<open>filepath.Join\<close>. Strings are byte sequences; the separator is \<open>/\<close>.
\<close>

text \<open>\<^verbatim>\<open>strings.Split(s, sep)\<close> for a one-byte separator: every occurrence cuts.\<close>

fun Split :: "char \<Rightarrow> string \<Rightarrow> string list" where
  "Split c [] = [[]]"
| "Split c (x # xs) =
     (if x = c then [] # Split c xs
      else (case Split c xs of
              [] \<Rightarrow> [[x]]
            | p # ps \<Rightarrow> (x # p) # ps))"

text \<open>\<^verbatim>\<open>strings.SplitN(s, sep, 2)\<close>: cut at the first separator only; no separator, one piece.\<close>

definition SplitN2 :: "char \<Rightarrow> string \<Rightarrow> string list" where
  "SplitN2 c s =
     (if c \<in> set s then [takeWhile (\<lambda>x. x \<noteq> c) s, tl (dropWhile (\<lambda>x. x \<noteq> c) s)]
      else [s])"

definition TrimPrefix :: "string \<Rightarrow> string \<Rightarrow> string" where
  "TrimPrefix s prefix =
     (if take (length prefix) s = prefix then drop (length prefix) s else s)"

text \<open>
  \<^verbatim>\<open>filepath.Ext\<close>: scanning from the end, the suffix starting at the first dot met before
  any separator; empty when a separator or the start of the string comes first.
\<close>

fun ext_scan :: "string \<Rightarrow> string \<Rightarrow> string" where
  "ext_scan [] acc = []"
| "ext_scan (x # xs) acc =
     (if x = CHR ''/'' then []
      else if x = CHR ''.'' then x # acc
      else ext_scan xs (x # acc))"

definition Ext :: "string \<Rightarrow> string" where
  "Ext path = ext_scan (rev path) []"

text \<open>
  \<^verbatim>\<open>filepath.Base\<close>: \<open>.\<close> for the empty path; trailing separators stripped; then the part
  after the last separator; \<open>/\<close> when only separators were there.
\<close>

definition strip_trailing :: "string \<Rightarrow> string" where
  "strip_trailing path = rev (dropWhile (\<lambda>x. x = CHR ''/'') (rev path))"

definition Base :: "string \<Rightarrow> string" where
  "Base path =
     (if path = [] then ''.''
      else let p = rev (takeWhile (\<lambda>x. x \<noteq> CHR ''/'') (rev (strip_trailing path)))
           in if p = [] then ''/'' else p)"

text \<open>
  \<^verbatim>\<open>filepath.Clean\<close>, element by element: empty elements and \<open>.\<close> vanish; \<open>..\<close> removes
  the element before it when there is one to remove, is kept at the front of a relative path
  and dropped at the root. The stack holds the kept elements, last first.
\<close>

fun clean_elems :: "bool \<Rightarrow> string list \<Rightarrow> string list \<Rightarrow> string list" where
  "clean_elems rooted stack [] = rev stack"
| "clean_elems rooted stack (e # es) =
     (if e = [] \<or> e = ''.'' then clean_elems rooted stack es
      else if e = ''..'' then
        (case stack of
           t # ts \<Rightarrow>
             (if t \<noteq> ''..'' then clean_elems rooted ts es
              else clean_elems rooted (e # stack) es)
         | [] \<Rightarrow>
             (if rooted then clean_elems rooted stack es
              else clean_elems rooted (e # stack) es))
      else clean_elems rooted (e # stack) es)"

fun join_elems :: "string list \<Rightarrow> string" where
  "join_elems [] = []"
| "join_elems [e] = e"
| "join_elems (e # es) = e @ ''/'' @ join_elems es"

definition Clean :: "string \<Rightarrow> string" where
  "Clean path =
     (if path = [] then ''.''
      else let rooted = (hd path = CHR ''/'');
               out = (if rooted then ''/'' else []) @
                     join_elems (clean_elems rooted [] (Split (CHR ''/'') path))
           in if out = [] then ''.'' else out)"

text \<open>\<^verbatim>\<open>filepath.Join(a, b)\<close>: the first non-empty element onwards, joined and cleaned.\<close>

definition Join :: "string \<Rightarrow> string \<Rightarrow> string" where
  "Join a b =
     (if a \<noteq> [] then Clean (a @ ''/'' @ b)
      else if b \<noteq> [] then Clean b
      else [])"

text \<open>\<^verbatim>\<open>filepath.Dir\<close> of a cleaned path, used by the file system for the parent directory.\<close>

definition Dir :: "string \<Rightarrow> string" where
  "Dir path =
     Clean (rev (dropWhile (\<lambda>x. x \<noteq> CHR ''/'') (rev path)))"

section \<open>Data model\<close>

text \<open>
  \<^verbatim>\<open>type Config struct\<close>. The field \<^verbatim>\<open>History\<close>, the path of the record file, is
  \<open>History_path\<close> here. \<open>Ignore\<close> is a \<^verbatim>\<open>map[string][]string\<close>, made by
  \<^verbatim>\<open>parseIgnorePaths\<close> before any repository is processed.
\<close>

record Config =
  AccessToken :: string
  Repos :: "string list"
  Output :: string
  History_path :: string
  Ignore :: "string \<rightharpoonup> string list"

text \<open>
  \<^verbatim>\<open>type History struct { Files map[string]string }\<close>. A Go map may be nil (\<open>None\<close>):
  reading a nil map finds no key, writing to it panics.
\<close>

record History =
  Files :: "(string \<rightharpoonup> string) option"

definition lookup :: "History \<Rightarrow> string \<Rightarrow> string option" where
  "lookup history k = (case Files history of None \<Rightarrow> None | Some m \<Rightarrow> m k)"

text \<open>One element of \<^verbatim>\<open>contents.Tree\<close>.\<close>

record tree_item =
  Path :: string
  Mode :: string
  Type :: string
  Sha :: string
  Size :: int
  Url :: string

section \<open>The sync decision: \<^verbatim>\<open>shouldDownload\<close> and \<^verbatim>\<open>isIgnored\<close>\<close>

text \<open>
  \<^verbatim>\<open>shouldDownload\<close> of the command (package main):
  \<^verbatim>\<open>if lastSha, ok := history.Files[filePath]; !ok || lastSha == "ERROR" { return true }\<close>
  \<^verbatim>\<open>return history.Files[filePath] != sha\<close>
\<close>

definition shouldDownload :: "string \<Rightarrow> string \<Rightarrow> History \<Rightarrow> bool" where
  "shouldDownload filePath sha history =
     (case lookup history filePath of
        None \<Rightarrow> True
      | Some lastSha \<Rightarrow> if lastSha = ''ERROR'' then True else lastSha \<noteq> sha)"

text \<open>
  \<^verbatim>\<open>shouldDownload\<close> of \<^verbatim>\<open>md-downloader.go\<close> (package md_downloader), which has no
  error marker: \<^verbatim>\<open>if _, ok := history.Files[filePath]; !ok { return true }\<close>
  \<^verbatim>\<open>return history.Files[filePath] != sha\<close>
\<close>

definition shouldDownload_raw :: "string \<Rightarrow> string \<Rightarrow> History \<Rightarrow> bool" where
  "shouldDownload_raw filePath sha history =
     (case lookup history filePath of
        None \<Rightarrow> True
      | Some lastSha \<Rightarrow> lastSha \<noteq> sha)"

text \<open>The loop of \<^verbatim>\<open>isIgnored\<close>: exact comparison with each configured path.\<close>

fun isIgnored_loop :: "string list \<Rightarrow> string \<Rightarrow> bool" where
  "isIgnored_loop [] filePath = False"
| "isIgnored_loop (path # rest) filePath =
     (if path = filePath then True else isIgnored_loop rest filePath)"

definition isIgnored :: "Config \<Rightarrow> string \<Rightarrow> string \<Rightarrow> bool" where
  "isIgnored cfg repo filePath =
     (case Ignore cfg repo of
        Some ignorePaths \<Rightarrow> isIgnored_loop ignorePaths filePath
      | None \<Rightarrow> False)"

section \<open>Log lines\<close>

text \<open>One constructor for each message the program prints or logs.\<close>

datatype msg =
    InvalidIgnorePath string
  | FailedSendRequest
  | FailedReadBody
  | FailedDecodeJSON
  | FailedDecodeBase64
  | IgnoringFile string
  | DownloadingFile string
  | SkippingFile string
  | FailedCreateDirectory string
  | FailedDownloadFile string
  | FailedCreateFile string
  | FailedSaveFile string
  | FileDownloaded string
  | FailedOpenHistory
  | FailedParseHistory string
  | FailedCreateHistory string
  | FailedSaveHistory string

section \<open>\<^verbatim>\<open>parseIgnorePaths\<close>\<close>

text \<open>
  The loop body of \<^verbatim>\<open>parseIgnorePaths\<close> for one raw entry: an entry without a colon is
  reported and skipped, otherwise \<^verbatim>\<open>cfg.Ignore[repo] = paths\<close>. The state is the map built
  so far and the messages printed.
\<close>

definition parseIgnore_entry ::
  "string \<Rightarrow> (string \<rightharpoonup> string list) \<times> msg list \<Rightarrow> (string \<rightharpoonup> string list) \<times> msg list" where
  "parseIgnore_entry i st =
     (let split = SplitN2 (CHR '':'') i
      in if length split < 2 then (fst st, snd st @ [InvalidIgnorePath i])
         else let repo = split ! 0;
                  paths = Split (CHR '','') (split ! 1)
              in ((fst st)(repo \<mapsto> paths), snd st))"

fun parseIgnore_loop ::
  "string list \<Rightarrow> (string \<rightharpoonup> string list) \<times> msg list \<Rightarrow> (string \<rightharpoonup> string list) \<times> msg list" where
  "parseIgnore_loop [] st = st"
| "parseIgnore_loop (i # rest) st = parseIgnore_loop rest (parseIgnore_entry i st)"

text \<open>
  \<^verbatim>\<open>parseIgnorePaths\<close> reads the global \<^verbatim>\<open>ignore\<close> and overwrites \<^verbatim>\<open>cfg.Ignore\<close> with a
  fresh map; it returns the new configuration and what it printed.
\<close>

definition parseIgnorePaths :: "string list \<Rightarrow> Config \<Rightarrow> Config \<times> msg list" where
  "parseIgnorePaths ignore cfg =
     (let r = parseIgnore_loop ignore (Map.empty, [])
      in (cfg\<lparr>Ignore := fst r\<rparr>, snd r))"

section \<open>The outside world\<close>

subsection \<open>File system\<close>

text \<open>
  Directories and regular files, named by cleaned paths. The working directory \<open>.\<close> and
  the root \<open>/\<close> always exist. When \<open>nospace\<close> holds, writing a non-empty sequence of
  bytes fails (the device is full).
\<close>

record filesystem =
  dirs :: "string set"
  files :: "string \<rightharpoonup> string"
  nospace :: bool

definition is_dir :: "filesystem \<Rightarrow> string \<Rightarrow> bool" where
  "is_dir f p = (p = ''.'' \<or> p = ''/'' \<or> p \<in> dirs f)"

fun prefixes_from :: "string \<Rightarrow> string list \<Rightarrow> string list" where
  "prefixes_from acc [] = []"
| "prefixes_from acc (e # es) =
     (let p = (if acc = [] then e else if acc = ''/'' then acc @ e else acc @ ''/'' @ e)
      in p # prefixes_from p es)"

text \<open>The path and its ancestors, outermost first: \<open>a/b/c\<close> gives \<open>a\<close>, \<open>a/b\<close>, \<open>a/b/c\<close>.\<close>

definition ancestors :: "string \<Rightarrow> string list" where
  "ancestors path =
     (let c = Clean path
      in if hd c = CHR ''/'' then prefixes_from ''/'' (tl (Split (CHR ''/'') c))
         else prefixes_from [] (Split (CHR ''/'') c))"

text \<open>
  \<^verbatim>\<open>os.MkdirAll\<close>: creates the directory and every missing ancestor; fails when the path or
  one of its ancestors is a regular file. The program calls it on the result of
  \<^verbatim>\<open>filepath.Join\<close> only, which is a cleaned path.
\<close>

definition MkdirAll :: "filesystem \<Rightarrow> string \<Rightarrow> filesystem option" where
  "MkdirAll f path =
     (if \<exists>a \<in> set (ancestors path). a \<in> dom (files f) then None
      else Some (f\<lparr>dirs := dirs f \<union> set (ancestors path)\<rparr>))"

text \<open>
  The kernel resolves a path element by element, from the root or from the working
  directory: every element before the last must name a directory that is there, \<open>..\<close>
  included, and a path that ends in a separator names the directory before it. The empty
  path names nothing. \<open>entry d e\<close> is the path of the element \<open>e\<close> looked up in the
  directory \<open>d\<close>.
\<close>

definition entry :: "string \<Rightarrow> string \<Rightarrow> string" where
  "entry d e =
     (if e = [] \<or> e = ''.'' then d
      else if e = ''..'' then Clean (d @ ''/..'')
      else if d = ''.'' then e
      else if d = ''/'' then d @ e
      else d @ ''/'' @ e)"

fun walk :: "filesystem \<Rightarrow> string \<Rightarrow> string list \<Rightarrow> string option" where
  "walk f d [] = Some d"
| "walk f d (e # es) = (if is_dir f (entry d e) then walk f (entry d e) es else None)"

definition resolves :: "filesystem \<Rightarrow> string \<Rightarrow> bool" where
  "resolves f name =
     (name \<noteq> [] \<and>
      walk f (if hd name = CHR ''/'' then ''/'' else ''.'')
        (butlast (Split (CHR ''/'') name)) \<noteq> None)"

text \<open>
  \<^verbatim>\<open>os.Create\<close>: creates or truncates the file; fails when the path does not resolve, when
  it names a directory, or when the directory that should hold the file is not there. It
  creates no directory. A path that resolves names the entry at its cleaned form.
\<close>

definition Create :: "filesystem \<Rightarrow> string \<Rightarrow> filesystem option" where
  "Create f name =
     (if \<not> resolves f name then None
      else let p = Clean name
           in if is_dir f p \<or> \<not> is_dir f (Dir p) then None
              else Some (f\<lparr>files := (files f)(p \<mapsto> [])\<rparr>))"

text \<open>
  Writing to the file \<^verbatim>\<open>os.Create\<close> returned for the name appends the bytes to what the
  file holds.
\<close>

definition Write :: "filesystem \<Rightarrow> string \<Rightarrow> string \<Rightarrow> filesystem option" where
  "Write f name bytes =
     (let p = Clean name
      in if nospace f \<and> bytes \<noteq> [] then None
         else Some (f\<lparr>files := (files f)(p \<mapsto>
                (case files f p of None \<Rightarrow> [] | Some old \<Rightarrow> old) @ bytes)\<rparr>))"

text \<open>
  \<^verbatim>\<open>os.Open\<close>: fails when the path does not resolve; a regular file opens on its bytes; a
  directory opens too, but reading it fails; anything else is an error.
\<close>

datatype opened = OpenError | OpenedDir | OpenedFile string

definition Open :: "filesystem \<Rightarrow> string \<Rightarrow> opened" where
  "Open f name =
     (if \<not> resolves f name then OpenError
      else let p = Clean name
           in case files f p of
                Some bytes \<Rightarrow> OpenedFile bytes
              | None \<Rightarrow> if is_dir f p then OpenedDir else OpenError)"

subsection \<open>Network and codecs\<close>

record request =
  req_url :: string
  req_authorization :: "string option"

text \<open>
  A response body delivers \<open>body\<close>; when \<open>body_broken\<close> holds the stream then ends in a
  read error instead of end-of-file.
\<close>

record response =
  body :: string
  body_broken :: bool

datatype json =
    JNull
  | JBool bool
  | JNumber string
  | JString string
  | JArray "json list"
  | JObject "(string \<times> json) list"

text \<open>
  What the program takes from its libraries and from the remote side, fixed during a run:
  \<^item> \<open>NewRequest_ok url\<close>: \<^verbatim>\<open>http.NewRequest("GET", url, nil)\<close> returns a request;
  \<^item> \<open>transport\<close>: the answer to a request, \<open>None\<close> when sending fails;
  \<^item> \<open>decode_tree\<close>: \<^verbatim>\<open>json.NewDecoder(r).Decode(&contents)\<close> on the bytes \<open>r\<close> still
    delivers, \<open>None\<close> for an error, else \<^verbatim>\<open>contents.Tree\<close>;
  \<^item> \<open>decode_content\<close>: the same for \<^verbatim>\<open>fileContentResponse\<close>, giving its \<^verbatim>\<open>Content\<close>;
  \<^item> \<open>DecodeString\<close>: \<^verbatim>\<open>base64.StdEncoding.DecodeString\<close>;
  \<^item> \<open>json_scan\<close>: the first JSON value of a byte sequence, \<open>None\<close> when the bytes are
    not JSON (a syntax error, or no bytes at all);
  \<^item> \<open>EqualFold\<close>: the case-insensitive comparison by which the decoder matches an object
    key with a field name;
  \<^item> \<open>encode_History\<close>: the bytes \<^verbatim>\<open>encoder.Encode(history)\<close> writes.
\<close>

record env =
  NewRequest_ok :: "string \<Rightarrow> bool"
  transport :: "request \<Rightarrow> response option"
  decode_tree :: "string \<Rightarrow> tree_item list option"
  decode_content :: "string \<Rightarrow> string option"
  DecodeString :: "string \<Rightarrow> string option"
  json_scan :: "string \<Rightarrow> json option"
  EqualFold :: "string \<Rightarrow> string \<Rightarrow> bool"
  encode_History :: "History \<Rightarrow> string"

subsection \<open>Program state\<close>

text \<open>The file system, the messages printed so far and the requests sent so far.\<close>

record world =
  fsys :: filesystem
  logged :: "msg list"
  sent :: "request list"

definition say :: "msg \<Rightarrow> world \<Rightarrow> world" where
  "say m w = w\<lparr>logged := logged w @ [m]\<rparr>"

text \<open>A call either returns or panics; a panic ends the program in the world it had reached.\<close>

datatype 'a outcome = Done 'a | Panicked world

section \<open>The change record on disk\<close>

text \<open>
  \<^verbatim>\<open>json.Decoder.Decode(&history)\<close> after the scanner accepted a JSON value. Decoding into
  \<^verbatim>\<open>map[string]string\<close> stores every key of the object: a string as it is, \<open>null\<close> and
  any value of another type as the empty string, and a value of another type also records a
  type error. Decoding goes on after a type error; the error is returned at the end.
\<close>

fun store_entry :: "(string \<rightharpoonup> string) \<times> bool \<Rightarrow> string \<times> json \<Rightarrow> (string \<rightharpoonup> string) \<times> bool" where
  "store_entry (m, err) (k, JString s) = (m(k \<mapsto> s), err)"
| "store_entry (m, err) (k, JNull) = (m(k \<mapsto> []), err)"
| "store_entry (m, err) (k, v) = (m(k \<mapsto> []), True)"

text \<open>
  The field \<^verbatim>\<open>Files\<close>: \<open>null\<close> makes the map nil; an object is stored into the existing
  map (a nil map is allocated first); any other value is a type error and leaves the map.
\<close>

fun unmarshal_Files ::
  "json \<Rightarrow> (string \<rightharpoonup> string) option \<times> bool \<Rightarrow> (string \<rightharpoonup> string) option \<times> bool" where
  "unmarshal_Files JNull (cur, err) = (None, err)"
| "unmarshal_Files (JObject kvs) (cur, err) =
     (let r = foldl store_entry (case cur of None \<Rightarrow> Map.empty | Some m \<Rightarrow> m, err) kvs
      in (Some (fst r), snd r))"
| "unmarshal_Files v (cur, err) = (cur, True)"

text \<open>
  The struct \<^verbatim>\<open>History\<close>: \<open>null\<close> changes nothing; an object sets the field \<^verbatim>\<open>Files\<close>
  from each key that matches the tag \<open>files\<close> and skips the other keys; any other value is a
  type error. The result is the error flag and the record as the decoder left it.
\<close>

fun unmarshal_History :: "env \<Rightarrow> json \<Rightarrow> History \<Rightarrow> bool \<times> History" where
  "unmarshal_History e JNull history = (False, history)"
| "unmarshal_History e (JObject kvs) history =
     (let r = foldl (\<lambda>st kv. if fst kv = ''files'' \<or> EqualFold e (fst kv) ''files''
                             then unmarshal_Files (snd kv) st else st)
                (Files history, False) kvs
      in (snd r, history\<lparr>Files := fst r\<rparr>))"
| "unmarshal_History e v history = (True, history)"

text \<open>
  \<^verbatim>\<open>loadHistory\<close> of the command: the record starts as an empty (non-nil) map; a file that
  does not open gives that record; otherwise the record is returned as \<^verbatim>\<open>Decode\<close> left it,
  with a warning when \<^verbatim>\<open>Decode\<close> returned an error.
\<close>

definition loadHistory :: "env \<Rightarrow> Config \<Rightarrow> world \<Rightarrow> History \<times> world" where
  "loadHistory e cfg w =
     (let history = \<lparr>Files = Some Map.empty\<rparr>
      in case Open (fsys w) (History_path cfg) of
           OpenError \<Rightarrow> (history, say FailedOpenHistory w)
         | OpenedDir \<Rightarrow> (history, say (FailedParseHistory (History_path cfg)) w)
         | OpenedFile bytes \<Rightarrow>
             (case json_scan e bytes of
                None \<Rightarrow> (history, say (FailedParseHistory (History_path cfg)) w)
              | Some j \<Rightarrow>
                  (let r = unmarshal_History e j history
                   in if fst r then (snd r, say (FailedParseHistory (History_path cfg)) w)
                      else (snd r, w))))"

text \<open>\<^verbatim>\<open>loadHistory\<close> of \<^verbatim>\<open>md-downloader.go\<close>: the same, silent when the file does not open.\<close>

definition loadHistory_raw :: "env \<Rightarrow> Config \<Rightarrow> world \<Rightarrow> History \<times> world" where
  "loadHistory_raw e cfg w =
     (let history = \<lparr>Files = Some Map.empty\<rparr>
      in case Open (fsys w) (History_path cfg) of
           OpenError \<Rightarrow> (history, w)
         | OpenedDir \<Rightarrow> (history, say (FailedParseHistory (History_path cfg)) w)
         | OpenedFile bytes \<Rightarrow>
             (case json_scan e bytes of
                None \<Rightarrow> (history, say (FailedParseHistory (History_path cfg)) w)
              | Some j \<Rightarrow>
                  (let r = unmarshal_History e j history
                   in if fst r then (snd r, say (FailedParseHistory (History_path cfg)) w)
                      else (snd r, w))))"

text \<open>
  \<^verbatim>\<open>saveHistory\<close> (the same in both files): \<^verbatim>\<open>os.Create\<close> truncates the record file, then
  the whole record is encoded into it.
\<close>

definition saveHistory :: "env \<Rightarrow> Config \<Rightarrow> History \<Rightarrow> world \<Rightarrow> world" where
  "saveHistory e cfg history w =
     (case Create (fsys w) (History_path cfg) of
        None \<Rightarrow> say (FailedCreateHistory (History_path cfg)) w
      | Some f1 \<Rightarrow>
          (case Write f1 (History_path cfg) (encode_History e history) of
             None \<Rightarrow> say (FailedSaveHistory (History_path cfg)) (w\<lparr>fsys := f1\<rparr>)
           | Some f2 \<Rightarrow> w\<lparr>fsys := f2\<rparr>))"

section \<open>Writing a file: \<^verbatim>\<open>saveFile\<close> and \<^verbatim>\<open>downloadFile\<close>\<close>

text \<open>
  \<^verbatim>\<open>saveFile\<close> of the command. \<^verbatim>\<open>MkdirAll\<close> is called on
  \<^verbatim>\<open>filepath.Join(cfg.Output, filepath.Base(repo))\<close> only. The function returns nothing:
  its caller does not learn of a failure.
\<close>

definition saveFile :: "Config \<Rightarrow> string \<Rightarrow> string \<Rightarrow> string \<Rightarrow> world \<Rightarrow> world" where
  "saveFile cfg repo filePath content w =
     (let fileDir = Join (Output cfg) (Base repo)
      in case MkdirAll (fsys w) fileDir of
           None \<Rightarrow> say (FailedCreateDirectory fileDir) w
         | Some f1 \<Rightarrow>
             (let target = Join fileDir filePath
              in case Create f1 target of
                   None \<Rightarrow> say (FailedCreateFile target) (w\<lparr>fsys := f1\<rparr>)
                 | Some f2 \<Rightarrow>
                     (case Write f2 target content of
                        None \<Rightarrow> say (FailedSaveFile target) (w\<lparr>fsys := f2\<rparr>)
                      | Some f3 \<Rightarrow> say (FileDownloaded target) (w\<lparr>fsys := f3\<rparr>))))"

text \<open>\<^verbatim>\<open>http.Get\<close>: no request leaves when the URL does not make one.\<close>

definition http_Get :: "env \<Rightarrow> string \<Rightarrow> world \<Rightarrow> response option \<times> world" where
  "http_Get e u w =
     (if NewRequest_ok e u
      then (transport e \<lparr>req_url = u, req_authorization = None\<rparr>,
            w\<lparr>sent := sent w @ [\<lparr>req_url = u, req_authorization = None\<rparr>]\<rparr>)
      else (None, w))"

text \<open>
  \<^verbatim>\<open>downloadFile\<close> of \<^verbatim>\<open>md-downloader.go\<close>: directory, request, file, then
  \<^verbatim>\<open>io.Copy\<close> of the body into the file. It returns nothing either.
\<close>

definition downloadFile :: "env \<Rightarrow> Config \<Rightarrow> string \<Rightarrow> string \<Rightarrow> string \<Rightarrow> world \<Rightarrow> world" where
  "downloadFile e cfg repo filePath downloadURL w =
     (let fileDir = Join (Output cfg) (Base repo)
      in case MkdirAll (fsys w) fileDir of
           None \<Rightarrow> say (FailedCreateDirectory fileDir) w
         | Some f1 \<Rightarrow>
             (let target = Join fileDir filePath;
                  got = http_Get e downloadURL (w\<lparr>fsys := f1\<rparr>)
              in case fst got of
                   None \<Rightarrow> say (FailedDownloadFile target) (snd got)
                 | Some resp \<Rightarrow>
                     (case Create f1 target of
                        None \<Rightarrow> say (FailedCreateFile target) (snd got)
                      | Some f2 \<Rightarrow>
                          (case Write f2 target (body resp) of
                             None \<Rightarrow> say (FailedSaveFile target) ((snd got)\<lparr>fsys := f2\<rparr>)
                           | Some f3 \<Rightarrow>
                               if body_broken resp
                               then say (FailedSaveFile target) ((snd got)\<lparr>fsys := f3\<rparr>)
                               else say (FileDownloaded target) ((snd got)\<lparr>fsys := f3\<rparr>)))))"

section \<open>The sync pass: \<^verbatim>\<open>listMdFiles\<close>\<close>

text \<open>\<^verbatim>\<open>history.Files[k] = v\<close>: panics on a nil map.\<close>

definition assign_Files :: "History \<Rightarrow> string \<Rightarrow> string \<Rightarrow> world \<Rightarrow> (History \<times> world) outcome" where
  "assign_Files history k v w =
     (case Files history of
        None \<Rightarrow> Panicked w
      | Some m \<Rightarrow> Done (history\<lparr>Files := Some (m(k \<mapsto> v))\<rparr>, w))"

text \<open>\<^verbatim>\<open>client.Do(req)\<close>: the request is sent and the transport answers.\<close>

definition client_Do :: "env \<Rightarrow> request \<Rightarrow> world \<Rightarrow> response option \<times> world" where
  "client_Do e req w = (transport e req, w\<lparr>sent := sent w @ [req]\<rparr>)"

definition bearer :: "Config \<Rightarrow> string option" where
  "bearer cfg = Some (''Bearer '' @ AccessToken cfg)"

subsection \<open>The command (package main)\<close>

text \<open>
  The body of \<^verbatim>\<open>for _, item := range contents.Tree\<close> in the command. The staleness test
  \<^verbatim>\<open>shouldDownload\<close> is the outer condition, \<^verbatim>\<open>isIgnored\<close> the inner one. The three
  failures of the fetch set the entry to \<open>ERROR\<close> and go on to the next item;
  \<^verbatim>\<open>saveFile\<close> returns nothing, and the entry is set to the item's sha after it.
  \<^verbatim>\<open>req, _ = http.NewRequest(...)\<close> drops the error, so \<^verbatim>\<open>req.Header.Set\<close> panics on
  the nil request when the URL is refused.
\<close>

definition listMdFiles_item ::
  "env \<Rightarrow> Config \<Rightarrow> string \<Rightarrow> tree_item \<Rightarrow> History \<times> world \<Rightarrow> (History \<times> world) outcome" where
  "listMdFiles_item e cfg repo item st =
     (let history = fst st; w = snd st
      in if Type item = ''blob'' \<and> Ext (Path item) = ''.md'' then
           (if shouldDownload (Path item) (Sha item) history then
              (if isIgnored cfg repo (Path item) then
                 Done (history, say (IgnoringFile (Path item)) w)
               else
                 (let w1 = say (DownloadingFile (Path item)) w
                  in if \<not> NewRequest_ok e (Url item) then Panicked w1
                     else
                       (let got = client_Do e
                              \<lparr>req_url = Url item, req_authorization = bearer cfg\<rparr> w1
                        in case fst got of
                             None \<Rightarrow>
                               assign_Files history (Path item) ''ERROR''
                                 (say FailedSendRequest (snd got))
                           | Some resp \<Rightarrow>
                               (case decode_content e (body resp) of
                                  None \<Rightarrow>
                                    assign_Files history (Path item) ''ERROR''
                                      (say FailedDecodeJSON (snd got))
                                | Some content \<Rightarrow>
                                    (case DecodeString e content of
                                       None \<Rightarrow>
                                         assign_Files history (Path item) ''ERROR''
                                           (say FailedDecodeBase64 (snd got))
                                     | Some decodedContent \<Rightarrow>
                                         assign_Files history (Path item) (Sha item)
                                           (saveFile cfg repo (Path item) decodedContent
                                              (snd got)))))))
            else Done (history, say (SkippingFile (Path item)) w))
         else Done (history, w))"

fun listMdFiles_loop ::
  "env \<Rightarrow> Config \<Rightarrow> string \<Rightarrow> tree_item list \<Rightarrow> History \<times> world \<Rightarrow> (History \<times> world) outcome" where
  "listMdFiles_loop e cfg repo [] st = Done st"
| "listMdFiles_loop e cfg repo (item # rest) st =
     (case listMdFiles_item e cfg repo item st of
        Panicked w \<Rightarrow> Panicked w
      | Done st' \<Rightarrow> listMdFiles_loop e cfg repo rest st')"

definition contentsURL :: "string \<Rightarrow> string" where
  "contentsURL repo = ''https://api.github.com'' @ ''/repos/'' @ repo @ ''/git/trees/master?recursive=1''"

text \<open>The request for the tree, and the world after a pass that gave up with one message.\<close>

definition listing_request :: "Config \<Rightarrow> string \<Rightarrow> request" where
  "listing_request cfg repo0 =
     \<lparr>req_url = contentsURL (TrimPrefix repo0 ''https://github.com/''),
      req_authorization = bearer cfg\<rparr>"

definition gave_up :: "Config \<Rightarrow> string \<Rightarrow> msg \<Rightarrow> world \<Rightarrow> world" where
  "gave_up cfg repo0 m w =
     w\<lparr>sent := sent w @ [listing_request cfg repo0], logged := logged w @ [m]\<rparr>"

text \<open>
  \<^verbatim>\<open>listMdFiles\<close> of the command. \<^verbatim>\<open>ioutil.ReadAll(resp.Body)\<close> reads the body to its
  end for the debug message, and \<^verbatim>\<open>json.NewDecoder(resp.Body)\<close> then decodes what the
  body still delivers, which is nothing. The three early returns come before
  \<^verbatim>\<open>loadHistory\<close>; \<^verbatim>\<open>saveHistory\<close> comes after the loop.
\<close>

definition listMdFiles :: "env \<Rightarrow> Config \<Rightarrow> string \<Rightarrow> world \<Rightarrow> world outcome" where
  "listMdFiles e cfg repo0 w =
     (let repo = TrimPrefix repo0 ''https://github.com/''
      in if \<not> NewRequest_ok e (contentsURL repo) then Panicked w
         else
           (let got = client_Do e
                  \<lparr>req_url = contentsURL repo, req_authorization = bearer cfg\<rparr> w
            in case fst got of
                 None \<Rightarrow> Done (say FailedSendRequest (snd got))
               | Some resp \<Rightarrow>
                   if body_broken resp then Done (say FailedReadBody (snd got))
                   else
                     (let remaining = resp\<lparr>body := []\<rparr>
                      in case decode_tree e (body remaining) of
                           None \<Rightarrow> Done (say FailedDecodeJSON (snd got))
                         | Some tree \<Rightarrow>
                             (case listMdFiles_loop e cfg repo tree
                                     (loadHistory e cfg (snd got)) of
                                Panicked w' \<Rightarrow> Panicked w'
                              | Done st \<Rightarrow> Done (saveHistory e cfg (fst st) (snd st))))))"

subsection \<open>\<^verbatim>\<open>md-downloader.go\<close> (package md_downloader)\<close>

definition downloadURL :: "string \<Rightarrow> string \<Rightarrow> string" where
  "downloadURL repo path = ''https://raw.githubusercontent.com/'' @ repo @ ''/master/'' @ path"

text \<open>
  The loop body of \<^verbatim>\<open>md-downloader.go\<close>: \<^verbatim>\<open>downloadFile\<close> fetches and writes, and the
  entry is set to the item's sha after it, whatever \<^verbatim>\<open>downloadFile\<close> did.
\<close>

definition listMdFiles_item_raw ::
  "env \<Rightarrow> Config \<Rightarrow> string \<Rightarrow> tree_item \<Rightarrow> History \<times> world \<Rightarrow> (History \<times> world) outcome" where
  "listMdFiles_item_raw e cfg repo item st =
     (let history = fst st; w = snd st
      in if Type item = ''blob'' \<and> Ext (Path item) = ''.md'' then
           (if shouldDownload_raw (Path item) (Sha item) history then
              (if isIgnored cfg repo (Path item) then
                 Done (history, say (IgnoringFile (Path item)) w)
               else
                 assign_Files history (Path item) (Sha item)
                   (downloadFile e cfg repo (Path item) (downloadURL repo (Path item))
                      (say (DownloadingFile (Path item)) w)))
            else Done (history, say (SkippingFile (Path item)) w))
         else Done (history, w))"

fun listMdFiles_loop_raw ::
  "env \<Rightarrow> Config \<Rightarrow> string \<Rightarrow> tree_item list \<Rightarrow> History \<times> world \<Rightarrow> (History \<times> world) outcome" where
  "listMdFiles_loop_raw e cfg repo [] st = Done st"
| "listMdFiles_loop_raw e cfg repo (item # rest) st =
     (case listMdFiles_item_raw e cfg repo item st of
        Panicked w \<Rightarrow> Panicked w
      | Done st' \<Rightarrow> listMdFiles_loop_raw e cfg repo rest st')"

text \<open>
  \<^verbatim>\<open>listMdFiles\<close> of \<^verbatim>\<open>md-downloader.go\<close>: the decoder reads the response body itself.
\<close>

definition listMdFiles_raw :: "env \<Rightarrow> Config \<Rightarrow> string \<Rightarrow> world \<Rightarrow> world outcome" where
  "listMdFiles_raw e cfg repo0 w =
     (let repo = TrimPrefix repo0 ''https://github.com/''
      in if \<not> NewRequest_ok e (contentsURL repo) then Panicked w
         else
           (let got = client_Do e
                  \<lparr>req_url = contentsURL repo, req_authorization = bearer cfg\<rparr> w
            in case fst got of
                 None \<Rightarrow> Done (say FailedSendRequest (snd got))
               | Some resp \<Rightarrow>
                   (case decode_tree e (body resp) of
                      None \<Rightarrow> Done (say FailedDecodeJSON (snd got))
                    | Some tree \<Rightarrow>
                        (case listMdFiles_loop_raw e cfg repo tree
                                (loadHistory_raw e cfg (snd got)) of
                           Panicked w' \<Rightarrow> Panicked w'
                         | Done st \<Rightarrow> Done (saveHistory e cfg (fst st) (snd st))))))"

section \<open>Reading the log\<close>

text \<open>
  The three outcomes of the decision for a candidate file, as the loop reports them:
  \<open>Downloading file\<close> precedes every fetch, \<open>Ignoring file\<close> is the exclusion branch and
  \<open>Skipping file ... (already up to date)\<close> the branch of an unchanged identifier.
\<close>

datatype decision = FETCH | SKIP_CURRENT | SKIP_EXCLUDED

fun decision_of :: "msg \<Rightarrow> (string \<times> decision) option" where
  "decision_of (DownloadingFile p) = Some (p, FETCH)"
| "decision_of (SkippingFile p) = Some (p, SKIP_CURRENT)"
| "decision_of (IgnoringFile p) = Some (p, SKIP_EXCLUDED)"
| "decision_of m = None"

text \<open>The decisions a run of the loop body or of the loop added to the log.\<close>

fun decisions :: "msg list \<Rightarrow> (string \<times> decision) list" where
  "decisions [] = []"
| "decisions (m # ms) =
     (case decision_of m of None \<Rightarrow> decisions ms | Some d \<Rightarrow> d # decisions ms)"

text \<open>A tree entry the loop looks at: a blob whose path has the extension \<open>.md\<close>.\<close>

definition candidate :: "tree_item \<Rightarrow> bool" where
  "candidate item = (Type item = ''blob'' \<and> Ext (Path item) = ''.md'')"

text \<open>
  The branch the loop body takes for a candidate, as its nested conditions are written: the
  staleness test first, the exclusion test inside it.
\<close>

definition branch_taken :: "bool \<Rightarrow> bool \<Rightarrow> decision" where
  "branch_taken stale excluded =
     (if \<not> stale then SKIP_CURRENT else if excluded then SKIP_EXCLUDED else FETCH)"

text \<open>The world in which the loop body or the loop ended, returned or panicked.\<close>

fun end_world :: "(History \<times> world) outcome \<Rightarrow> world" where
  "end_world (Done st) = snd st"
| "end_world (Panicked w) = w"

section \<open>The command: \<^verbatim>\<open>Run\<close>\<close>

fun Run_loop :: "env \<Rightarrow> Config \<Rightarrow> string list \<Rightarrow> world \<Rightarrow> world outcome" where
  "Run_loop e cfg [] w = Done w"
| "Run_loop e cfg (repo # rest) w =
     (case listMdFiles e cfg repo w of
        Panicked w' \<Rightarrow> Panicked w'
      | Done w' \<Rightarrow> Run_loop e cfg rest w')"

text \<open>\<^verbatim>\<open>parseIgnorePaths()\<close>, then \<^verbatim>\<open>listMdFiles(repo)\<close> for each configured repository.\<close>

definition Run :: "env \<Rightarrow> string list \<Rightarrow> Config \<Rightarrow> world \<Rightarrow> world outcome" where
  "Run e ignore cfg w =
     (let parsed = parseIgnorePaths ignore cfg
      in Run_loop e (fst parsed) (Repos (fst parsed))
           (w\<lparr>logged := logged w @ snd parsed\<rparr>))"

section \<open>Sample inputs\<close>

text \<open>
  A small repository \<open>owner/project\<close> with one Markdown file, and the answers the remote
  side and the libraries give for it. They are used where a statement is evaluated on a
  concrete input.
\<close>

definition fresh :: filesystem where
  "fresh = \<lparr>dirs = {}, files = Map.empty, nospace = False\<rparr>"

definition start :: world where
  "start = \<lparr>fsys = fresh, logged = [], sent = []\<rparr>"

definition sample_cfg :: Config where
  "sample_cfg = \<lparr>AccessToken = ''token'', Repos = [''owner/project''], Output = ''docs'',
      History_path = ''history.json'', Ignore = Map.empty\<rparr>"

definition readme :: tree_item where
  "readme = \<lparr>Path = ''README.md'', Mode = ''100644'', Type = ''blob'', Sha = ''sha1'',
      Size = 4, Url = ''https://api.github.com/repos/owner/project/git/blobs/sha1''\<rparr>"

definition tree_bytes :: string where
  \<open>tree_bytes = ''{"tree": [{"path": "README.md", "mode": "100644", "type": "blob", "sha": "sha1", "size": 4, "url": "https://api.github.com/repos/owner/project/git/blobs/sha1"}]}''\<close>

definition blob_bytes :: string where
  \<open>blob_bytes = ''{"content": "IyBIaQ=="}''\<close>

definition saved_bytes :: string where
  \<open>saved_bytes = ''{"files": {"README.md": "sha1"}}''\<close>

definition mistyped_bytes :: string where
  \<open>mistyped_bytes = ''{"files": {"a.md": "abc", "b.md": 1}}''\<close>

definition null_bytes :: string where
  \<open>null_bytes = ''{"files": null}''\<close>

definition sample_env :: env where
  "sample_env =
     \<lparr>NewRequest_ok = (\<lambda>u. True),
      transport = (\<lambda>r.
        if req_url r = contentsURL ''owner/project''
          then Some \<lparr>body = tree_bytes, body_broken = False\<rparr>
        else if req_url r = Url readme
          then Some \<lparr>body = blob_bytes, body_broken = False\<rparr>
        else if req_url r = downloadURL ''owner/project'' ''README.md''
          then Some \<lparr>body = ''# Hi'', body_broken = False\<rparr>
        else None),
      decode_tree = (\<lambda>b. if b = tree_bytes then Some [readme] else None),
      decode_content = (\<lambda>b. if b = blob_bytes then Some ''IyBIaQ=='' else None),
      DecodeString = (\<lambda>s. if s = ''IyBIaQ=='' then Some ''# Hi'' else None),
      json_scan = (\<lambda>b.
        if b = saved_bytes
          then Some (JObject [(''files'', JObject [(''README.md'', JString ''sha1'')])])
        else if b = mistyped_bytes
          then Some (JObject [(''files'',
                 JObject [(''a.md'', JString ''abc''), (''b.md'', JNumber ''1'')])])
        else if b = null_bytes
          then Some (JObject [(''files'', JNull)])
        else None),
      EqualFold = (\<lambda>a b. a = b),
      encode_History = (\<lambda>h. if lookup h ''README.md'' = Some ''sha1'' then saved_bytes else [])\<rparr>"

text \<open>A world in which the output root \<open>docs\<close> is a regular file.\<close>

definition blocked :: world where
  "blocked = \<lparr>fsys = \<lparr>dirs = {}, files = [''docs'' \<mapsto> ''a file''], nospace = False\<rparr>,
      logged = [], sent = []\<rparr>"

text \<open>A world whose record file holds JSON in which one value is a number.\<close>

definition mistyped :: world where
  "mistyped = \<lparr>fsys = \<lparr>dirs = {}, files = [''history.json'' \<mapsto> mistyped_bytes],
      nospace = False\<rparr>, logged = [], sent = []\<rparr>"

text \<open>The record, the world after the loop and the world after the pass, for that repository.\<close>

definition synced :: History where
  "synced = \<lparr>Files = Some [''README.md'' \<mapsto> ''sha1'']\<rparr>"

definition after_loop :: world where
  "after_loop =
     \<lparr>fsys = \<lparr>dirs = {''docs'', ''docs/project''},
               files = [''docs/project/README.md'' \<mapsto> ''# Hi''], nospace = False\<rparr>,
      logged = [DownloadingFile ''README.md'', FileDownloaded ''docs/project/README.md''],
      sent = [listing_request sample_cfg ''owner/project'',
              \<lparr>req_url = downloadURL ''owner/project'' ''README.md'', req_authorization = None\<rparr>]\<rparr>"

definition after_pass :: world where
  "after_pass = after_loop\<lparr>fsys := (fsys after_loop)\<lparr>files :=
      [''docs/project/README.md'' \<mapsto> ''# Hi'', ''history.json'' \<mapsto> saved_bytes]\<rparr>\<rparr>"

text \<open>The same after the loop of the command, which fetches the blob through the API.\<close>

definition after_fetch :: world where
  "after_fetch =
     \<lparr>fsys = \<lparr>dirs = {''docs'', ''docs/project''},
               files = [''docs/project/README.md'' \<mapsto> ''# Hi''], nospace = False\<rparr>,
      logged = [DownloadingFile ''README.md'', FileDownloaded ''docs/project/README.md''],
      sent = [\<lparr>req_url = Url readme, req_authorization = Some ''Bearer token''\<rparr>]\<rparr>"

text \<open>A record file in a directory that does not exist: the record cannot be saved.\<close>

definition unsaved_cfg :: Config where
  "unsaved_cfg = sample_cfg\<lparr>History_path := ''state/history.json''\<rparr>"

definition unsaved_pass :: world where
  "unsaved_pass =
     after_loop\<lparr>logged := logged after_loop @ [FailedCreateHistory ''state/history.json'']\<rparr>"

text \<open>A second file whose blob the remote side does not deliver, and the record after that.\<close>

definition guide :: tree_item where
  "guide = \<lparr>Path = ''guide.md'', Mode = ''100644'', Type = ''blob'', Sha = ''sha2'',
      Size = 9, Url = ''https://api.github.com/repos/owner/project/git/blobs/sha2''\<rparr>"

definition failed :: History where
  "failed = \<lparr>Files = Some [''guide.md'' \<mapsto> ''ERROR'']\<rparr>"

definition after_failure :: world where
  "after_failure =
     \<lparr>fsys = fresh,
      logged = [DownloadingFile ''guide.md'', FailedSendRequest],
      sent = [\<lparr>req_url = Url guide, req_authorization = Some ''Bearer token''\<rparr>]\<rparr>"

text \<open>The configuration after \<^verbatim>\<open>--ignore owner/project:README.md\<close>, and an outdated record.\<close>

definition ignoring_cfg :: Config where
  "ignoring_cfg = sample_cfg\<lparr>Ignore := [''owner/project'' \<mapsto> [''README.md'']]\<rparr>"

definition outdated :: History where
  "outdated = \<lparr>Files = Some [''README.md'' \<mapsto> ''sha0'']\<rparr>"

text \<open>The record read from the mistyped record file, and the pass that starts from it.\<close>

definition recovered :: History where
  "recovered = \<lparr>Files = Some [''a.md'' \<mapsto> ''abc'', ''b.md'' \<mapsto> []]\<rparr>"

definition recovered_synced :: History where
  "recovered_synced =
     \<lparr>Files = Some [''a.md'' \<mapsto> ''abc'', ''b.md'' \<mapsto> [], ''README.md'' \<mapsto> ''sha1'']\<rparr>"

definition after_recovery :: world where
  "after_recovery =
     \<lparr>fsys = \<lparr>dirs = {''docs'', ''docs/project''},
               files = [''history.json'' \<mapsto> mistyped_bytes,
                        ''docs/project/README.md'' \<mapsto> ''# Hi''], nospace = False\<rparr>,
      logged = [FailedParseHistory ''history.json'', DownloadingFile ''README.md'',
                FileDownloaded ''docs/project/README.md''],
      sent = [listing_request sample_cfg ''owner/project'',
              \<lparr>req_url = downloadURL ''owner/project'' ''README.md'', req_authorization = None\<rparr>]\<rparr>"

text \<open>
  The world after a pass of \<^verbatim>\<open>md-downloader.go\<close> that started with the output root being a
  regular file.
\<close>

definition blocked_pass :: world where
  "blocked_pass =
     \<lparr>fsys = \<lparr>dirs = {}, files = [''docs'' \<mapsto> ''a file'', ''history.json'' \<mapsto> saved_bytes],
               nospace = False\<rparr>,
      logged = [DownloadingFile ''README.md'', FailedCreateDirectory ''docs/project''],
      sent = [listing_request sample_cfg ''owner/project'']\<rparr>"

text \<open>
  A world whose record file holds \<open>null\<close> for the field \<open>files\<close>, and the world in which a
  pass that starts there ends.
\<close>

definition nulled :: world where
  "nulled = \<lparr>fsys = \<lparr>dirs = {}, files = [''history.json'' \<mapsto> null_bytes],
      nospace = False\<rparr>, logged = [], sent = []\<rparr>"

definition nulled_end :: world where
  "nulled_end =
     \<lparr>fsys = \<lparr>dirs = {''docs'', ''docs/project''},
               files = [''history.json'' \<mapsto> null_bytes,
                        ''docs/project/README.md'' \<mapsto> ''# Hi''], nospace = False\<rparr>,
      logged = [DownloadingFile ''README.md'', FileDownloaded ''docs/project/README.md''],
      sent = [listing_request sample_cfg ''owner/project'',
              \<lparr>req_url = downloadURL ''owner/project'' ''README.md'', req_authorization = None\<rparr>]\<rparr>"

section \<open>Auxiliary facts\<close>

subsection \<open>Unfolding rules\<close>

lemmas path_defs = Join_def Base_def Clean_def strip_trailing_def Dir_def ancestors_def

lemmas fs_defs = MkdirAll_def Create_def Write_def Open_def is_dir_def resolves_def entry_def

lemmas sample_defs = fresh_def start_def sample_cfg_def readme_def sample_env_def

subsection \<open>Parsing the ignore entries\<close>

lemma parseIgnore_loop_append:
  "parseIgnore_loop (a @ b) st = parseIgnore_loop b (parseIgnore_loop a st)"
  by (induction a arbitrary: st) auto

lemma SplitN2_wellformed:
  assumes "CHR '':'' \<notin> set repo"
  shows "SplitN2 (CHR '':'') (repo @ '':'' @ ps) = [repo, ps]"
proof -
  have t: "takeWhile (\<lambda>x. x \<noteq> CHR '':'') (repo @ CHR '':'' # ps) = repo"
    using assms by (induction repo) auto
  have d: "dropWhile (\<lambda>x. x \<noteq> CHR '':'') (repo @ CHR '':'' # ps) = CHR '':'' # ps"
    using assms by (induction repo) auto
  show ?thesis by (simp add: SplitN2_def t d)
qed

lemma parseIgnore_entry_wellformed:
  "CHR '':'' \<notin> set repo \<Longrightarrow>
   fst (parseIgnore_entry (repo @ '':'' @ ps) st) repo = Some (Split (CHR '','') ps)"
  using SplitN2_wellformed [of repo ps] by (simp add: parseIgnore_entry_def)

lemma parseIgnore_entry_other:
  "CHR '':'' \<in> set z \<longrightarrow> takeWhile (\<lambda>x. x \<noteq> CHR '':'') z \<noteq> repo \<Longrightarrow>
   fst (parseIgnore_entry z st) repo = fst st repo"
  by (auto simp: parseIgnore_entry_def SplitN2_def Let_def)

lemma parseIgnore_loop_other:
  "\<forall>z \<in> set zs. CHR '':'' \<in> set z \<longrightarrow> takeWhile (\<lambda>x. x \<noteq> CHR '':'') z \<noteq> repo \<Longrightarrow>
   fst (parseIgnore_loop zs st) repo = fst st repo"
  by (induction zs arbitrary: st) (auto simp: parseIgnore_entry_other)

lemma isIgnored_loop_set: "isIgnored_loop paths p = (p \<in> set paths)"
  by (induction paths) auto

subsection \<open>The record\<close>

lemma lookup_simps:
  "lookup \<lparr>Files = None\<rparr> k = None"
  "lookup \<lparr>Files = Some m\<rparr> k = m k"
  by (simp_all add: lookup_def)

lemma lookup_update:
  "Files h = Some m \<Longrightarrow> lookup (h\<lparr>Files := Some (m(k \<mapsto> v))\<rparr>) p = (if p = k then Some v else lookup h p)"
  by (simp add: lookup_def)

subsection \<open>What the callees log, send and write\<close>

lemma decisions_append: "decisions (a @ b) = decisions a @ decisions b"
  by (induction a) (auto split: option.splits)

lemma saveFile_effect:
  "\<exists>m. logged (saveFile cfg repo p c w) = logged w @ [m] \<and> decision_of m = None
       \<and> sent (saveFile cfg repo p c w) = sent w"
  by (auto simp: saveFile_def say_def Let_def split: option.splits)

lemma downloadFile_effect:
  "\<exists>m. logged (downloadFile e cfg repo p u w) = logged w @ [m] \<and> decision_of m = None"
  by (auto simp: downloadFile_def http_Get_def say_def Let_def split: option.splits)

lemma loadHistory_raw_effect:
  "\<exists>ms. snd (loadHistory_raw e cfg w) = w\<lparr>logged := logged w @ ms\<rparr> \<and> decisions ms = []"
proof -
  have "snd (loadHistory_raw e cfg w) = w\<lparr>logged := logged w @ []\<rparr>
      \<or> snd (loadHistory_raw e cfg w) = w\<lparr>logged := logged w @ [FailedParseHistory (History_path cfg)]\<rparr>"
    by (auto simp: loadHistory_raw_def say_def Let_def split: opened.splits option.splits)
  then show ?thesis
  proof
    assume "snd (loadHistory_raw e cfg w) = w\<lparr>logged := logged w @ []\<rparr>"
    then show ?thesis by (intro exI [of _ "[]"]) simp
  next
    assume "snd (loadHistory_raw e cfg w) = w\<lparr>logged := logged w @ [FailedParseHistory (History_path cfg)]\<rparr>"
    then show ?thesis by (intro exI [of _ "[FailedParseHistory (History_path cfg)]"]) simp
  qed
qed

lemma saveHistory_effect:
  "sent (saveHistory e cfg h w) = sent w
   \<and> (\<exists>ms. logged (saveHistory e cfg h w) = logged w @ ms \<and> decisions ms = [])"
proof -
  have s: "sent (saveHistory e cfg h w) = sent w"
    by (auto simp: saveHistory_def say_def split: option.splits)
  have "logged (saveHistory e cfg h w) = logged w @ []
      \<or> logged (saveHistory e cfg h w) = logged w @ [FailedCreateHistory (History_path cfg)]
      \<or> logged (saveHistory e cfg h w) = logged w @ [FailedSaveHistory (History_path cfg)]"
    by (auto simp: saveHistory_def say_def split: option.splits)
  then have "\<exists>ms. logged (saveHistory e cfg h w) = logged w @ ms \<and> decisions ms = []"
  proof (elim disjE)
    assume "logged (saveHistory e cfg h w) = logged w @ []"
    then show ?thesis by (intro exI [of _ "[]"]) simp
  next
    assume "logged (saveHistory e cfg h w) = logged w @ [FailedCreateHistory (History_path cfg)]"
    then show ?thesis by (intro exI [of _ "[FailedCreateHistory (History_path cfg)]"]) simp
  next
    assume "logged (saveHistory e cfg h w) = logged w @ [FailedSaveHistory (History_path cfg)]"
    then show ?thesis by (intro exI [of _ "[FailedSaveHistory (History_path cfg)]"]) simp
  qed
  then show ?thesis using s by simp
qed


lemma saveFile_directories:
  "dirs (fsys (saveFile cfg repo p c w))
     \<subseteq> dirs (fsys w) \<union> set (ancestors (Join (Output cfg) (Base repo)))"
  by (auto simp: saveFile_def MkdirAll_def Create_def Write_def say_def Let_def
      split: option.splits if_splits)

lemma downloadFile_directories:
  "dirs (fsys (downloadFile e cfg repo p u w))
     \<subseteq> dirs (fsys w) \<union> set (ancestors (Join (Output cfg) (Base repo)))"
  by (auto simp: downloadFile_def http_Get_def MkdirAll_def Create_def Write_def say_def Let_def
      split: option.splits if_splits)

lemma saveFile_needs_parent:
  assumes "\<not> is_dir (fsys (saveFile cfg repo p c w))
              (Dir (Clean (Join (Join (Output cfg) (Base repo)) p)))"
  shows "files (fsys (saveFile cfg repo p c w)) = files (fsys w)"
  using assms
  by (auto simp: saveFile_def MkdirAll_def Create_def Write_def say_def Let_def is_dir_def
      split: option.splits if_splits)

lemma saveFile_writes:
  assumes "MkdirAll (fsys w) (Join (Output cfg) (Base repo)) = Some f1"
    and "Create f1 (Join (Join (Output cfg) (Base repo)) p) = Some f2"
    and "\<not> nospace f2 \<or> content = []"
  shows "files (fsys (saveFile cfg repo p content w))
           (Clean (Join (Join (Output cfg) (Base repo)) p)) = Some content"
  using assms
  by (auto simp: saveFile_def Create_def Write_def say_def Let_def split: if_splits)

lemma output_path_shape:
  "Join (Join ''docs'' (Base ''owner/project'')) ''docs/intro.md'' = ''docs/project/docs/intro.md''"
  "Join (Join ''docs'' (Base ''https://github.com/owner/project'')) ''README.md''
     = ''docs/project/README.md''"
  by (simp_all add: path_defs)

lemma resolution_examples:
  "Create fresh ''nodir/../history.json'' = None"
  "Create fresh ''history.json/'' = None"
  "Create (fresh\<lparr>files := [''history.json'' \<mapsto> ''x'']\<rparr>) ''history.json/'' = None"
  "Open fresh [] = OpenError"
  "Open (fresh\<lparr>files := [''history.json'' \<mapsto> ''x'']\<rparr>) ''nodir/../history.json'' = OpenError"
  "Open (fresh\<lparr>files := [''history.json'' \<mapsto> ''x'']\<rparr>) ''./history.json'' = OpenedFile ''x''"
  by (simp_all add: fs_defs fresh_def path_defs)

lemma loadHistory_empty_when_unreadable:
  assumes "Open (fsys w) (History_path cfg) = OpenError
         \<or> Open (fsys w) (History_path cfg) = OpenedDir
         \<or> (\<exists>bytes. Open (fsys w) (History_path cfg) = OpenedFile bytes
              \<and> (json_scan e bytes = None
                 \<or> (\<exists>j. json_scan e bytes = Some j \<and> (\<forall>kvs. j \<noteq> JObject kvs))))"
  shows "fst (loadHistory e cfg w) = \<lparr>Files = Some Map.empty\<rparr>
       \<and> fst (loadHistory_raw e cfg w) = \<lparr>Files = Some Map.empty\<rparr>"
proof -
  have u: "snd (unmarshal_History e j h) = h" if "\<forall>kvs. j \<noteq> JObject kvs" for j h
    using that by (cases j) auto
  show ?thesis
    using assms u
    by (auto simp: loadHistory_def loadHistory_raw_def Let_def split: opened.splits option.splits)
qed

subsection \<open>One tree entry\<close>

lemma listMdFiles_item_current:
  assumes "Type item = ''blob''" "Ext (Path item) = ''.md''"
    and "\<not> shouldDownload (Path item) (Sha item) history"
  shows "listMdFiles_item e cfg repo item (history, w)
         = Done (history, say (SkippingFile (Path item)) w)"
  using assms by (simp add: listMdFiles_item_def)

lemma listMdFiles_item_raw_current:
  assumes "Type item = ''blob''" "Ext (Path item) = ''.md''"
    and "\<not> shouldDownload_raw (Path item) (Sha item) history"
  shows "listMdFiles_item_raw e cfg repo item (history, w)
         = Done (history, say (SkippingFile (Path item)) w)"
  using assms by (simp add: listMdFiles_item_raw_def)

lemma item_history:
  assumes "listMdFiles_item e cfg repo item (h, w) = Done (h', w')"
  shows "h' = h \<or> (candidate item \<and> shouldDownload (Path item) (Sha item) h
           \<and> \<not> isIgnored cfg repo (Path item)
           \<and> (\<exists>m v. Files h = Some m \<and> h' = h\<lparr>Files := Some (m(Path item \<mapsto> v))\<rparr>))"
  using assms
  by (auto simp: listMdFiles_item_def candidate_def assign_Files_def Let_def
      split: if_splits option.splits)

lemma item_raw_history:
  assumes "listMdFiles_item_raw e cfg repo item (h, w) = Done (h', w')"
  shows "(candidate item \<and> shouldDownload_raw (Path item) (Sha item) h
           \<and> \<not> isIgnored cfg repo (Path item)
           \<and> (\<exists>m. Files h = Some m \<and> h' = h\<lparr>Files := Some (m(Path item \<mapsto> Sha item))\<rparr>))
         \<or> (h' = h \<and> \<not> (candidate item \<and> shouldDownload_raw (Path item) (Sha item) h
           \<and> \<not> isIgnored cfg repo (Path item)))"
  using assms
  by (auto simp: listMdFiles_item_raw_def candidate_def assign_Files_def Let_def
      split: if_splits option.splits)

lemma item_decisions:
  "\<exists>ms. logged (end_world (listMdFiles_item e cfg repo item (h, w))) = logged w @ ms
     \<and> decisions ms = (if candidate item
          then [(Path item, branch_taken (shouldDownload (Path item) (Sha item) h)
                              (isIgnored cfg repo (Path item)))]
          else [])"
proof -
  obtain m where m: "logged (saveFile cfg repo (Path item) c w1) = logged w1 @ [m c w1]"
      "decision_of (m c w1) = None" for c w1
    using saveFile_effect [of cfg repo "Path item"] by metis
  show ?thesis
    by (auto simp: listMdFiles_item_def candidate_def assign_Files_def Let_def say_def
        client_Do_def branch_taken_def m
        split: option.splits)
qed

lemma item_raw_decisions:
  "\<exists>ms. logged (end_world (listMdFiles_item_raw e cfg repo item (h, w))) = logged w @ ms
     \<and> decisions ms = (if candidate item
          then [(Path item, branch_taken (shouldDownload_raw (Path item) (Sha item) h)
                              (isIgnored cfg repo (Path item)))]
          else [])"
proof -
  obtain m where m: "logged (downloadFile e cfg repo (Path item) u w1) = logged w1 @ [m u w1]"
      "decision_of (m u w1) = None" for u w1
    using downloadFile_effect [of e cfg repo "Path item"] by metis
  show ?thesis
    by (auto simp: listMdFiles_item_raw_def candidate_def assign_Files_def Let_def say_def
        branch_taken_def m
        split: option.splits)
qed

lemma item_frame:
  assumes "listMdFiles_item e cfg repo item (h, w) = Done (h', w')"
  shows "(lookup h p \<noteq> None \<longrightarrow> lookup h' p \<noteq> None)
       \<and> (\<not> (candidate item \<and> Path item = p \<and> \<not> isIgnored cfg repo p) \<longrightarrow> lookup h' p = lookup h p)"
  using item_history [OF assms] by (auto simp: lookup_update)

lemma item_raw_frame:
  assumes "listMdFiles_item_raw e cfg repo item (h, w) = Done (h', w')"
  shows "(lookup h p \<noteq> None \<longrightarrow> lookup h' p \<noteq> None)
       \<and> (\<not> (candidate item \<and> Path item = p \<and> \<not> isIgnored cfg repo p) \<longrightarrow> lookup h' p = lookup h p)"
  using item_raw_history [OF assms] by (auto simp: lookup_update)

lemma item_raw_sets:
  assumes "listMdFiles_item_raw e cfg repo item (h, w) = Done (h', w')"
    and "candidate item" "\<not> isIgnored cfg repo (Path item)"
  shows "lookup h' (Path item) = Some (Sha item)"
  using item_raw_history [OF assms(1)] assms(2,3)
  by (auto simp: lookup_update shouldDownload_raw_def split: option.splits)

lemma item_values:
  assumes "listMdFiles_item e cfg repo item (h, w) = Done (h', w')"
    and "candidate item" "\<not> isIgnored cfg repo (Path item)"
  shows "(\<not> shouldDownload (Path item) (Sha item) h \<and> h' = h)
       \<or> (\<exists>m v. Files h = Some m \<and> h' = h\<lparr>Files := Some (m(Path item \<mapsto> v))\<rparr>
           \<and> (v = Sha item \<or> v = ''ERROR''))"
  using assms
  by (auto simp: listMdFiles_item_def assign_Files_def Let_def candidate_def
      split: if_splits option.splits)

lemma item_sets:
  assumes "listMdFiles_item e cfg repo item (h, w) = Done (h', w')"
    and "candidate item" "\<not> isIgnored cfg repo (Path item)"
  shows "lookup h' (Path item) = Some (Sha item) \<or> lookup h' (Path item) = Some ''ERROR''"
proof -
  have "\<not> shouldDownload (Path item) (Sha item) h \<Longrightarrow> lookup h (Path item) = Some (Sha item)"
    by (auto simp: shouldDownload_def split: option.splits if_splits)
  then show ?thesis
    using item_values [OF assms] by (auto simp: lookup_update)
qed

lemma item_excluded:
  assumes "isIgnored cfg repo (Path item)" "candidate item"
  shows "listMdFiles_item e cfg repo item (h, w)
          = Done (h, say (if shouldDownload (Path item) (Sha item) h
                          then IgnoringFile (Path item) else SkippingFile (Path item)) w)"
    and "listMdFiles_item_raw e cfg repo item (h, w)
          = Done (h, say (if shouldDownload_raw (Path item) (Sha item) h
                          then IgnoringFile (Path item) else SkippingFile (Path item)) w)"
  using assms by (simp_all add: listMdFiles_item_def listMdFiles_item_raw_def candidate_def)

lemma fetch_failure_marks_error:
  assumes "candidate item" "shouldDownload (Path item) (Sha item) h"
    and "\<not> isIgnored cfg repo (Path item)" "NewRequest_ok e (Url item)"
    and "Files h = Some m"
    and "transport e \<lparr>req_url = Url item, req_authorization = bearer cfg\<rparr> = None
       \<or> (\<exists>resp. transport e \<lparr>req_url = Url item, req_authorization = bearer cfg\<rparr> = Some resp
            \<and> (decode_content e (body resp) = None
               \<or> (\<exists>c. decode_content e (body resp) = Some c \<and> DecodeString e c = None)))"
  shows "\<exists>w'. listMdFiles_item e cfg repo item (h, w)
                 = Done (h\<lparr>Files := Some (m(Path item \<mapsto> ''ERROR''))\<rparr>, w')
             \<and> fsys w' = fsys w
             \<and> listMdFiles_loop e cfg repo (item # rest) (h, w)
                 = listMdFiles_loop e cfg repo rest
                     (h\<lparr>Files := Some (m(Path item \<mapsto> ''ERROR''))\<rparr>, w')"
  using assms
  by (auto simp: listMdFiles_item_def candidate_def client_Do_def assign_Files_def say_def Let_def)

lemma saveFile_outcome_not_recorded:
  assumes "candidate item" "shouldDownload (Path item) (Sha item) h"
    and "\<not> isIgnored cfg repo (Path item)" "NewRequest_ok e (Url item)"
    and "Files h = Some m"
    and "transport e \<lparr>req_url = Url item, req_authorization = bearer cfg\<rparr> = Some resp"
    and "decode_content e (body resp) = Some c" "DecodeString e c = Some decodedContent"
  shows "listMdFiles_item e cfg repo item (h, w)
         = Done (h\<lparr>Files := Some (m(Path item \<mapsto> Sha item))\<rparr>,
                 saveFile cfg repo (Path item) decodedContent
                   (snd (client_Do e \<lparr>req_url = Url item, req_authorization = bearer cfg\<rparr>
                           (say (DownloadingFile (Path item)) w))))"
  using assms
  by (simp add: listMdFiles_item_def candidate_def client_Do_def assign_Files_def Let_def)

lemma download_outcome_not_recorded:
  assumes "candidate item" "shouldDownload_raw (Path item) (Sha item) h"
    and "\<not> isIgnored cfg repo (Path item)" "Files h = Some m"
  shows "listMdFiles_item_raw e cfg repo item (h, w)
         = Done (h\<lparr>Files := Some (m(Path item \<mapsto> Sha item))\<rparr>,
                 downloadFile e cfg repo (Path item) (downloadURL repo (Path item))
                   (say (DownloadingFile (Path item)) w))"
  using assms
  by (simp add: listMdFiles_item_raw_def candidate_def assign_Files_def Let_def)

subsection \<open>The loop\<close>

lemma loop_frame:
  assumes "listMdFiles_loop e cfg repo tree (h, w) = Done (h', w')"
  shows "(lookup h p \<noteq> None \<longrightarrow> lookup h' p \<noteq> None)
       \<and> (\<not> (\<exists>i \<in> set tree. candidate i \<and> Path i = p \<and> \<not> isIgnored cfg repo p)
            \<longrightarrow> lookup h' p = lookup h p)"
  using assms
proof (induction tree arbitrary: h w)
  case Nil
  then show ?case by simp
next
  case (Cons item rest)
  from Cons.prems obtain h1 w1 where
    i: "listMdFiles_item e cfg repo item (h, w) = Done (h1, w1)"
    and r: "listMdFiles_loop e cfg repo rest (h1, w1) = Done (h', w')"
    by (auto split: outcome.splits)
  show ?case
    using item_frame [OF i, of p] Cons.IH [OF r] by auto
qed

lemma loop_raw_frame:
  assumes "listMdFiles_loop_raw e cfg repo tree (h, w) = Done (h', w')"
  shows "(lookup h p \<noteq> None \<longrightarrow> lookup h' p \<noteq> None)
       \<and> (\<not> (\<exists>i \<in> set tree. candidate i \<and> Path i = p \<and> \<not> isIgnored cfg repo p)
            \<longrightarrow> lookup h' p = lookup h p)"
  using assms
proof (induction tree arbitrary: h w)
  case Nil
  then show ?case by simp
next
  case (Cons item rest)
  from Cons.prems obtain h1 w1 where
    i: "listMdFiles_item_raw e cfg repo item (h, w) = Done (h1, w1)"
    and r: "listMdFiles_loop_raw e cfg repo rest (h1, w1) = Done (h', w')"
    by (auto split: outcome.splits)
  show ?case
    using item_raw_frame [OF i, of p] Cons.IH [OF r] by auto
qed

lemma end_world_loop_Cons:
  "end_world (listMdFiles_loop e cfg repo (item # rest) st)
   = (case listMdFiles_item e cfg repo item st of
        Panicked w \<Rightarrow> w
      | Done st' \<Rightarrow> end_world (listMdFiles_loop e cfg repo rest st'))"
  by (simp split: outcome.splits)

lemma loop_decisions:
  "\<exists>ms. logged (end_world (listMdFiles_loop e cfg repo tree (h, w))) = logged w @ ms
     \<and> (\<forall>qd \<in> set (decisions ms). \<exists>i \<in> set tree. candidate i \<and> fst qd = Path i
           \<and> (snd qd = FETCH \<longrightarrow> \<not> isIgnored cfg repo (fst qd))
           \<and> (snd qd = SKIP_EXCLUDED \<longrightarrow> isIgnored cfg repo (fst qd)))"
proof (induction tree arbitrary: h w)
  case Nil
  show ?case by simp
next
  case (Cons item rest)
  obtain ms where ms: "logged (end_world (listMdFiles_item e cfg repo item (h, w))) = logged w @ ms"
    "decisions ms = (if candidate item
          then [(Path item, branch_taken (shouldDownload (Path item) (Sha item) h)
                              (isIgnored cfg repo (Path item)))]
          else [])"
    using item_decisions by blast
  have here: "\<forall>qd \<in> set (decisions ms). candidate item \<and> fst qd = Path item
           \<and> (snd qd = FETCH \<longrightarrow> \<not> isIgnored cfg repo (fst qd))
           \<and> (snd qd = SKIP_EXCLUDED \<longrightarrow> isIgnored cfg repo (fst qd))"
    using ms(2) by (auto simp: branch_taken_def split: if_splits)
  show ?case
  proof (cases "listMdFiles_item e cfg repo item (h, w)")
    case (Panicked w1)
    then show ?thesis using ms(1) here by (intro exI [of _ ms]) auto
  next
    case (Done st1)
    obtain ms' where ms': "logged (end_world (listMdFiles_loop e cfg repo rest (fst st1, snd st1)))
        = logged (snd st1) @ ms'"
      "\<forall>qd \<in> set (decisions ms'). \<exists>i \<in> set rest. candidate i \<and> fst qd = Path i
           \<and> (snd qd = FETCH \<longrightarrow> \<not> isIgnored cfg repo (fst qd))
           \<and> (snd qd = SKIP_EXCLUDED \<longrightarrow> isIgnored cfg repo (fst qd))"
      using Cons.IH by blast
    show ?thesis
      using Done ms(1) ms' here
      by (intro exI [of _ "ms @ ms'"]) (auto simp: decisions_append)
  qed
qed

lemma loop_raw_decisions:
  "\<exists>ms. logged (end_world (listMdFiles_loop_raw e cfg repo tree (h, w))) = logged w @ ms
     \<and> (\<forall>qd \<in> set (decisions ms). \<exists>i \<in> set tree. candidate i \<and> fst qd = Path i
           \<and> (snd qd = FETCH \<longrightarrow> \<not> isIgnored cfg repo (fst qd))
           \<and> (snd qd = SKIP_EXCLUDED \<longrightarrow> isIgnored cfg repo (fst qd)))"
proof (induction tree arbitrary: h w)
  case Nil
  show ?case by simp
next
  case (Cons item rest)
  obtain ms where ms: "logged (end_world (listMdFiles_item_raw e cfg repo item (h, w))) = logged w @ ms"
    "decisions ms = (if candidate item
          then [(Path item, branch_taken (shouldDownload_raw (Path item) (Sha item) h)
                              (isIgnored cfg repo (Path item)))]
          else [])"
    using item_raw_decisions by blast
  have here: "\<forall>qd \<in> set (decisions ms). candidate item \<and> fst qd = Path item
           \<and> (snd qd = FETCH \<longrightarrow> \<not> isIgnored cfg repo (fst qd))
           \<and> (snd qd = SKIP_EXCLUDED \<longrightarrow> isIgnored cfg repo (fst qd))"
    using ms(2) by (auto simp: branch_taken_def split: if_splits)
  show ?case
  proof (cases "listMdFiles_item_raw e cfg repo item (h, w)")
    case (Panicked w1)
    then show ?thesis using ms(1) here by (intro exI [of _ ms]) auto
  next
    case (Done st1)
    obtain ms' where ms': "logged (end_world (listMdFiles_loop_raw e cfg repo rest (fst st1, snd st1)))
        = logged (snd st1) @ ms'"
      "\<forall>qd \<in> set (decisions ms'). \<exists>i \<in> set rest. candidate i \<and> fst qd = Path i
           \<and> (snd qd = FETCH \<longrightarrow> \<not> isIgnored cfg repo (fst qd))
           \<and> (snd qd = SKIP_EXCLUDED \<longrightarrow> isIgnored cfg repo (fst qd))"
      using Cons.IH by blast
    show ?thesis
      using Done ms(1) ms' here
      by (intro exI [of _ "ms @ ms'"]) (auto simp: decisions_append)
  qed
qed

lemma loop_raw_synced:
  assumes "listMdFiles_loop_raw e cfg repo tree (h, w) = Done (h', w')"
    and "distinct (map Path (filter candidate tree))"
  shows "\<forall>i \<in> set tree. candidate i \<and> \<not> isIgnored cfg repo (Path i)
           \<longrightarrow> lookup h' (Path i) = Some (Sha i)"
  using assms
proof (induction tree arbitrary: h w)
  case Nil
  then show ?case by simp
next
  case (Cons item rest)
  from Cons.prems(1) obtain h1 w1 where
    i: "listMdFiles_item_raw e cfg repo item (h, w) = Done (h1, w1)"
    and r: "listMdFiles_loop_raw e cfg repo rest (h1, w1) = Done (h', w')"
    by (auto split: outcome.splits)
  have d: "distinct (map Path (filter candidate rest))"
    using Cons.prems(2) by (auto split: if_splits)
  have rest: "\<forall>i \<in> set rest. candidate i \<and> \<not> isIgnored cfg repo (Path i)
           \<longrightarrow> lookup h' (Path i) = Some (Sha i)"
    using Cons.IH [OF r d] .
  have first: "lookup h' (Path item) = Some (Sha item)"
    if c: "candidate item" and n: "\<not> isIgnored cfg repo (Path item)"
  proof -
    have "\<not> (\<exists>i \<in> set rest. candidate i \<and> Path i = Path item \<and> \<not> isIgnored cfg repo (Path item))"
    proof -
      have "Path item \<notin> Path ` set (filter candidate rest)"
        using Cons.prems(2) c by simp
      then show ?thesis by (auto simp: image_def)
    qed
    then have "lookup h' (Path item) = lookup h1 (Path item)"
      using loop_raw_frame [OF r, of "Path item"] by blast
    then show ?thesis using item_raw_sets [OF i c n] by simp
  qed
  show ?case using rest first by auto
qed

lemma loop_raw_current:
  assumes "\<forall>i \<in> set tree. candidate i \<and> \<not> isIgnored cfg repo (Path i)
           \<longrightarrow> lookup h (Path i) = Some (Sha i)"
  shows "\<exists>ms. listMdFiles_loop_raw e cfg repo tree (h, w) = Done (h, w\<lparr>logged := logged w @ ms\<rparr>)
     \<and> decisions ms = map (\<lambda>i. (Path i, if shouldDownload_raw (Path i) (Sha i) h
                                         then SKIP_EXCLUDED else SKIP_CURRENT))
                         (filter candidate tree)"
  using assms
proof (induction tree arbitrary: w)
  case Nil
  show ?case by (intro exI [of _ "[]"]) simp
next
  case (Cons item rest)
  have stale: "isIgnored cfg repo (Path item)"
    if "candidate item" "shouldDownload_raw (Path item) (Sha item) h"
    using Cons.prems that by (auto simp: shouldDownload_raw_def)
  obtain m where step: "listMdFiles_item_raw e cfg repo item (h, w)
      = Done (h, w\<lparr>logged := logged w @ m\<rparr>)"
    and dm: "decisions m = (if candidate item
        then [(Path item, if shouldDownload_raw (Path item) (Sha item) h
                          then SKIP_EXCLUDED else SKIP_CURRENT)] else [])"
  proof (cases "candidate item")
    case False
    then have "listMdFiles_item_raw e cfg repo item (h, w) = Done (h, w\<lparr>logged := logged w @ []\<rparr>)"
      using False by (auto simp: listMdFiles_item_raw_def candidate_def)
    then show ?thesis using that [of "[]"] False by simp
  next
    case True
    show ?thesis
    proof (cases "shouldDownload_raw (Path item) (Sha item) h")
      case s: True
      have "listMdFiles_item_raw e cfg repo item (h, w)
          = Done (h, w\<lparr>logged := logged w @ [IgnoringFile (Path item)]\<rparr>)"
        using True s stale by (simp add: listMdFiles_item_raw_def candidate_def say_def)
      then show ?thesis using that [of "[IgnoringFile (Path item)]"] True s by simp
    next
      case s: False
      have "listMdFiles_item_raw e cfg repo item (h, w)
          = Done (h, w\<lparr>logged := logged w @ [SkippingFile (Path item)]\<rparr>)"
        using True s by (simp add: listMdFiles_item_raw_def candidate_def say_def)
      then show ?thesis using that [of "[SkippingFile (Path item)]"] True s by simp
    qed
  qed
  have "\<forall>i \<in> set rest. candidate i \<and> \<not> isIgnored cfg repo (Path i)
           \<longrightarrow> lookup h (Path i) = Some (Sha i)"
    using Cons.prems by simp
  from Cons.IH [OF this, of "w\<lparr>logged := logged w @ m\<rparr>"]
  obtain ms where ms: "listMdFiles_loop_raw e cfg repo rest (h, w\<lparr>logged := logged w @ m\<rparr>)
       = Done (h, w\<lparr>logged := logged w @ m @ ms\<rparr>)"
    "decisions ms = map (\<lambda>i. (Path i, if shouldDownload_raw (Path i) (Sha i) h
                                         then SKIP_EXCLUDED else SKIP_CURRENT))
                         (filter candidate rest)"
    by auto
  show ?case
    using step dm ms by (intro exI [of _ "m @ ms"]) (simp add: decisions_append)
qed

lemma loop_synced:
  assumes "listMdFiles_loop e cfg repo tree (h, w) = Done (h', w')"
    and "distinct (map Path (filter candidate tree))"
  shows "\<forall>i \<in> set tree. candidate i \<and> \<not> isIgnored cfg repo (Path i)
           \<longrightarrow> lookup h' (Path i) = Some (Sha i) \<or> lookup h' (Path i) = Some ''ERROR''"
  using assms
proof (induction tree arbitrary: h w)
  case Nil
  then show ?case by simp
next
  case (Cons item rest)
  from Cons.prems(1) obtain h1 w1 where
    i: "listMdFiles_item e cfg repo item (h, w) = Done (h1, w1)"
    and r: "listMdFiles_loop e cfg repo rest (h1, w1) = Done (h', w')"
    by (auto split: outcome.splits)
  have d: "distinct (map Path (filter candidate rest))"
    using Cons.prems(2) by (auto split: if_splits)
  have rest: "\<forall>i \<in> set rest. candidate i \<and> \<not> isIgnored cfg repo (Path i)
           \<longrightarrow> lookup h' (Path i) = Some (Sha i) \<or> lookup h' (Path i) = Some ''ERROR''"
    using Cons.IH [OF r d] .
  have first: "lookup h' (Path item) = Some (Sha item) \<or> lookup h' (Path item) = Some ''ERROR''"
    if c: "candidate item" and n: "\<not> isIgnored cfg repo (Path item)"
  proof -
    have "\<not> (\<exists>i \<in> set rest. candidate i \<and> Path i = Path item \<and> \<not> isIgnored cfg repo (Path item))"
    proof -
      have "Path item \<notin> Path ` set (filter candidate rest)"
        using Cons.prems(2) c by simp
      then show ?thesis by (auto simp: image_def)
    qed
    then have "lookup h' (Path item) = lookup h1 (Path item)"
      using loop_frame [OF r, of "Path item"] by blast
    then show ?thesis using item_sets [OF i c n] by simp
  qed
  show ?case using rest first by auto
qed

lemma loop_current:
  assumes "\<forall>i \<in> set tree. candidate i \<and> \<not> isIgnored cfg repo (Path i)
           \<longrightarrow> lookup h (Path i) = Some (Sha i) \<and> Sha i \<noteq> ''ERROR''"
  shows "\<exists>ms. listMdFiles_loop e cfg repo tree (h, w) = Done (h, w\<lparr>logged := logged w @ ms\<rparr>)
     \<and> decisions ms = map (\<lambda>i. (Path i, if shouldDownload (Path i) (Sha i) h
                                         then SKIP_EXCLUDED else SKIP_CURRENT))
                         (filter candidate tree)"
  using assms
proof (induction tree arbitrary: w)
  case Nil
  show ?case by (intro exI [of _ "[]"]) simp
next
  case (Cons item rest)
  have stale: "isIgnored cfg repo (Path item)"
    if "candidate item" "shouldDownload (Path item) (Sha item) h"
    using Cons.prems that by (auto simp: shouldDownload_def)
  obtain m where step: "listMdFiles_item e cfg repo item (h, w)
      = Done (h, w\<lparr>logged := logged w @ m\<rparr>)"
    and dm: "decisions m = (if candidate item
        then [(Path item, if shouldDownload (Path item) (Sha item) h
                          then SKIP_EXCLUDED else SKIP_CURRENT)] else [])"
  proof (cases "candidate item")
    case False
    then have "listMdFiles_item e cfg repo item (h, w) = Done (h, w\<lparr>logged := logged w @ []\<rparr>)"
      using False by (auto simp: listMdFiles_item_def candidate_def)
    then show ?thesis using that [of "[]"] False by simp
  next
    case True
    show ?thesis
    proof (cases "shouldDownload (Path item) (Sha item) h")
      case s: True
      have "listMdFiles_item e cfg repo item (h, w)
          = Done (h, w\<lparr>logged := logged w @ [IgnoringFile (Path item)]\<rparr>)"
        using True s stale by (simp add: listMdFiles_item_def candidate_def say_def)
      then show ?thesis using that [of "[IgnoringFile (Path item)]"] True s by simp
    next
      case s: False
      have "listMdFiles_item e cfg repo item (h, w)
          = Done (h, w\<lparr>logged := logged w @ [SkippingFile (Path item)]\<rparr>)"
        using True s by (simp add: listMdFiles_item_def candidate_def say_def)
      then show ?thesis using that [of "[SkippingFile (Path item)]"] True s by simp
    qed
  qed
  have "\<forall>i \<in> set rest. candidate i \<and> \<not> isIgnored cfg repo (Path i)
           \<longrightarrow> lookup h (Path i) = Some (Sha i) \<and> Sha i \<noteq> ''ERROR''"
    using Cons.prems by simp
  from Cons.IH [OF this, of "w\<lparr>logged := logged w @ m\<rparr>"]
  obtain ms where ms: "listMdFiles_loop e cfg repo rest (h, w\<lparr>logged := logged w @ m\<rparr>)
       = Done (h, w\<lparr>logged := logged w @ m @ ms\<rparr>)"
    "decisions ms = map (\<lambda>i. (Path i, if shouldDownload (Path i) (Sha i) h
                                         then SKIP_EXCLUDED else SKIP_CURRENT))
                         (filter candidate rest)"
    by auto
  show ?case
    using step dm ms by (intro exI [of _ "m @ ms"]) (simp add: decisions_append)
qed

subsection \<open>The pass\<close>

text \<open>
  With the listing decoded, a pass of \<^verbatim>\<open>md-downloader.go\<close> is the loop between
  \<^verbatim>\<open>loadHistory\<close> and \<^verbatim>\<open>saveHistory\<close>. In the command the decoder is given the body
  after \<^verbatim>\<open>ioutil.ReadAll\<close> has read it to its end: when the decoder finds no JSON value in
  an empty input, every pass of the command ends before the loop.
\<close>

lemma listMdFiles_raw_listed:
  assumes "NewRequest_ok e (contentsURL (TrimPrefix repo0 ''https://github.com/''))"
    and "transport e (listing_request cfg repo0) = Some resp"
    and "decode_tree e (body resp) = Some tree"
  shows "listMdFiles_raw e cfg repo0 w
     = (case listMdFiles_loop_raw e cfg (TrimPrefix repo0 ''https://github.com/'') tree
              (loadHistory_raw e cfg (w\<lparr>sent := sent w @ [listing_request cfg repo0]\<rparr>)) of
          Panicked w' \<Rightarrow> Panicked w'
        | Done st \<Rightarrow> Done (saveHistory e cfg (fst st) (snd st)))"
  using assms
  by (simp add: listMdFiles_raw_def client_Do_def Let_def listing_request_def)

lemma second_pass_raw:
  assumes ok: "NewRequest_ok e (contentsURL (TrimPrefix repo0 ''https://github.com/''))"
    and tr: "transport e (listing_request cfg repo0) = Some resp"
    and dt: "decode_tree e (body resp) = Some tree"
    and d: "distinct (map Path (filter candidate tree))"
    and loop1: "listMdFiles_loop_raw e cfg (TrimPrefix repo0 ''https://github.com/'') tree
                  (loadHistory_raw e cfg (w\<lparr>sent := sent w @ [listing_request cfg repo0]\<rparr>))
                = Done (h1, wb)"
    and w1: "w1 = saveHistory e cfg h1 wb"
    and pers: "fst (loadHistory_raw e cfg (w1\<lparr>sent := sent w1 @ [listing_request cfg repo0]\<rparr>)) = h1"
  shows "listMdFiles_raw e cfg repo0 w = Done w1
     \<and> (\<exists>w2 ms. listMdFiles_raw e cfg repo0 w1 = Done w2
          \<and> sent w2 = sent w1 @ [listing_request cfg repo0]
          \<and> logged w2 = logged w1 @ ms
          \<and> map fst (decisions ms) = map Path (filter candidate tree)
          \<and> (\<forall>qd \<in> set (decisions ms). snd qd = SKIP_CURRENT
                \<or> snd qd = SKIP_EXCLUDED
                  \<and> isIgnored cfg (TrimPrefix repo0 ''https://github.com/'') (fst qd)))"
proof -
  let ?repo = "TrimPrefix repo0 ''https://github.com/''"
  let ?w1' = "w1\<lparr>sent := sent w1 @ [listing_request cfg repo0]\<rparr>"
  have p1: "listMdFiles_raw e cfg repo0 w = Done w1"
    using listMdFiles_raw_listed [OF ok tr dt, of w] loop1 w1 by simp
  have synced: "\<forall>i \<in> set tree. candidate i \<and> \<not> isIgnored cfg ?repo (Path i)
           \<longrightarrow> lookup h1 (Path i) = Some (Sha i)"
    using loop_raw_synced [OF _ d] loop1 by (metis prod.collapse)
  obtain ml where ml: "snd (loadHistory_raw e cfg ?w1') = ?w1'\<lparr>logged := logged ?w1' @ ml\<rparr>"
    "decisions ml = []"
    using loadHistory_raw_effect by blast
  let ?wl = "snd (loadHistory_raw e cfg ?w1')"
  obtain ms where ms: "listMdFiles_loop_raw e cfg ?repo tree (h1, ?wl)
       = Done (h1, ?wl\<lparr>logged := logged ?wl @ ms\<rparr>)"
    "decisions ms = map (\<lambda>i. (Path i, if shouldDownload_raw (Path i) (Sha i) h1
                                         then SKIP_EXCLUDED else SKIP_CURRENT))
                         (filter candidate tree)"
    using loop_raw_current [OF synced] by blast
  let ?wc = "?wl\<lparr>logged := logged ?wl @ ms\<rparr>"
  obtain mv where mv: "logged (saveHistory e cfg h1 ?wc) = logged ?wc @ mv" "decisions mv = []"
    and sv: "sent (saveHistory e cfg h1 ?wc) = sent ?wc"
    using saveHistory_effect by blast
  have ld: "loadHistory_raw e cfg ?w1' = (h1, ?wl)"
    using pers by (metis prod.collapse)
  have p2: "listMdFiles_raw e cfg repo0 w1 = Done (saveHistory e cfg h1 ?wc)"
    using listMdFiles_raw_listed [OF ok tr dt, of w1] ld ms(1) by simp
  have stale: "isIgnored cfg ?repo (Path i)"
    if "i \<in> set tree" "candidate i" "shouldDownload_raw (Path i) (Sha i) h1" for i
    using synced that by (auto simp: shouldDownload_raw_def)
  have l2: "logged (saveHistory e cfg h1 ?wc) = logged w1 @ (ml @ ms @ mv)"
    using mv(1) ml(1) by simp
  have s2: "sent (saveHistory e cfg h1 ?wc) = sent w1 @ [listing_request cfg repo0]"
    using sv ml(1) by simp
  have dd: "decisions (ml @ ms @ mv) = decisions ms"
    using ml(2) mv(2) by (simp add: decisions_append)
  have names: "map fst (decisions (ml @ ms @ mv)) = map Path (filter candidate tree)"
    using dd ms(2) by (simp add: comp_def)
  have kinds: "\<forall>qd \<in> set (decisions (ml @ ms @ mv)). snd qd = SKIP_CURRENT
                \<or> snd qd = SKIP_EXCLUDED \<and> isIgnored cfg ?repo (fst qd)"
    using dd ms(2) stale by auto
  show ?thesis
    using p1 p2 l2 s2 names kinds by blast
qed

lemma listMdFiles_drained_body:
  assumes "decode_tree e [] = None"
  shows "listMdFiles e cfg repo0 w
           \<in> {Panicked w,
              Done (gave_up cfg repo0 FailedSendRequest w),
              Done (gave_up cfg repo0 FailedReadBody w),
              Done (gave_up cfg repo0 FailedDecodeJSON w)}"
  using assms
  by (auto simp: listMdFiles_def client_Do_def say_def Let_def listing_request_def gave_up_def
      split: option.splits)

subsection \<open>The sample repository, evaluated\<close>

lemma sample_trim: "TrimPrefix ''owner/project'' ''https://github.com/'' = ''owner/project''"
  by (simp add: TrimPrefix_def)

lemma sample_listing:
  "NewRequest_ok sample_env (contentsURL (TrimPrefix ''owner/project'' ''https://github.com/''))"
  "transport sample_env (listing_request sample_cfg ''owner/project'')
     = Some \<lparr>body = tree_bytes, body_broken = False\<rparr>"
  "decode_tree sample_env (body \<lparr>body = tree_bytes, body_broken = False\<rparr>) = Some [readme]"
  "distinct (map Path (filter candidate [readme]))"
  by (simp_all add: sample_env_def listing_request_def sample_trim)

lemma sample_load_start:
  "loadHistory_raw sample_env sample_cfg
     (start\<lparr>sent := sent start @ [listing_request sample_cfg ''owner/project'']\<rparr>)
   = (\<lparr>Files = Some Map.empty\<rparr>,
      start\<lparr>sent := [listing_request sample_cfg ''owner/project'']\<rparr>)"
  by (simp add: loadHistory_raw_def start_def fresh_def sample_cfg_def fs_defs Clean_def Let_def)

lemma sample_download:
  "downloadFile sample_env sample_cfg ''owner/project'' ''README.md''
     (downloadURL ''owner/project'' ''README.md'')
     (say (DownloadingFile ''README.md'')
        (start\<lparr>sent := [listing_request sample_cfg ''owner/project'']\<rparr>))
   = after_loop"
  by (simp add: downloadFile_def http_Get_def after_loop_def sample_defs path_defs fs_defs
      say_def Let_def downloadURL_def contentsURL_def insert_commute)

lemma sample_loop:
  "listMdFiles_loop_raw sample_env sample_cfg ''owner/project'' [readme]
     (\<lparr>Files = Some Map.empty\<rparr>, start\<lparr>sent := [listing_request sample_cfg ''owner/project'']\<rparr>)
   = Done (synced, after_loop)"
proof -
  have c: "Type readme = ''blob''" "Ext ''README.md'' = ''.md''" "Path readme = ''README.md''"
    "Sha readme = ''sha1''"
    by (simp_all add: readme_def Ext_def)
  have n: "\<not> isIgnored sample_cfg ''owner/project'' ''README.md''"
    by (simp add: isIgnored_def sample_cfg_def)
  have s: "shouldDownload_raw ''README.md'' ''sha1'' \<lparr>Files = Some Map.empty\<rparr>"
    by (simp add: shouldDownload_raw_def lookup_def)
  show ?thesis
    by (simp add: listMdFiles_item_raw_def c n s Let_def sample_download assign_Files_def
        synced_def)
qed

lemma sample_save: "saveHistory sample_env sample_cfg synced after_loop = after_pass"
  by (simp add: saveHistory_def after_loop_def after_pass_def synced_def sample_cfg_def
      sample_env_def lookup_def fs_defs Clean_def Dir_def Let_def fun_upd_twist)

lemma sample_reload:
  "fst (loadHistory_raw sample_env sample_cfg
     (after_pass\<lparr>sent := sent after_pass @ [listing_request sample_cfg ''owner/project'']\<rparr>))
   = synced"
  by (simp add: loadHistory_raw_def after_pass_def after_loop_def sample_cfg_def sample_env_def
      synced_def fs_defs Clean_def Let_def)

lemma readme_fields:
  "Type readme = ''blob''" "Path readme = ''README.md''" "Sha readme = ''sha1''"
  "Url readme = ''https://api.github.com/repos/owner/project/git/blobs/sha1''"
  "Ext ''README.md'' = ''.md''" "candidate readme"
  by (simp_all add: readme_def Ext_def candidate_def)

lemma guide_fields:
  "Type guide = ''blob''" "Path guide = ''guide.md''" "Sha guide = ''sha2''"
  "Url guide = ''https://api.github.com/repos/owner/project/git/blobs/sha2''"
  "Ext ''guide.md'' = ''.md''" "candidate guide"
  by (simp_all add: guide_def Ext_def candidate_def)

lemma ignoring_readme: "isIgnored ignoring_cfg ''owner/project'' ''README.md''"
  by (simp add: isIgnored_def ignoring_cfg_def sample_cfg_def)

lemma not_ignored_sample:
  "\<not> isIgnored sample_cfg repo p" "\<not> isIgnored unsaved_cfg repo p"
  by (simp_all add: isIgnored_def sample_cfg_def unsaved_cfg_def)

lemma unsaved_fields:
  "Output unsaved_cfg = ''docs''" "History_path unsaved_cfg = ''state/history.json''"
  "listing_request unsaved_cfg r = listing_request sample_cfg r"
  by (simp_all add: unsaved_cfg_def sample_cfg_def listing_request_def bearer_def)

lemma sample_fields:
  "Output sample_cfg = ''docs''" "History_path sample_cfg = ''history.json''"
  "bearer sample_cfg = Some ''Bearer token''"
  by (simp_all add: sample_cfg_def bearer_def)

lemma sample_answers:
  "NewRequest_ok sample_env u"
  "transport sample_env \<lparr>req_url = downloadURL ''owner/project'' ''README.md'', req_authorization = a\<rparr>
     = Some \<lparr>body = ''# Hi'', body_broken = False\<rparr>"
  "transport sample_env \<lparr>req_url = ''https://api.github.com/repos/owner/project/git/blobs/sha1'',
       req_authorization = a\<rparr>
     = Some \<lparr>body = blob_bytes, body_broken = False\<rparr>"
  "transport sample_env \<lparr>req_url = ''https://api.github.com/repos/owner/project/git/blobs/sha2'',
       req_authorization = a\<rparr> = None"
  "decode_content sample_env blob_bytes = Some ''IyBIaQ==''"
  "DecodeString sample_env ''IyBIaQ=='' = Some ''# Hi''"
  by (simp_all add: sample_env_def downloadURL_def contentsURL_def readme_fields guide_fields)

lemma target_paths:
  "Join ''docs'' (Base ''owner/project'') = ''docs/project''"
  "Join ''docs/project'' ''README.md'' = ''docs/project/README.md''"
  "ancestors ''docs/project'' = [''docs'', ''docs/project'']"
  "Clean ''docs/project/README.md'' = ''docs/project/README.md''"
  "Dir ''docs/project/README.md'' = ''docs/project''"
  "Clean ''state/history.json'' = ''state/history.json''"
  "Dir ''state/history.json'' = ''state''"
  "Clean ''history.json'' = ''history.json''"
  "Dir ''history.json'' = ''.''"
  by (simp_all add: path_defs)

lemma resolves_sample:
  "resolves f ''history.json''"
  "''docs'' \<in> dirs f \<Longrightarrow> ''docs/project'' \<in> dirs f \<Longrightarrow> resolves f ''docs/project/README.md''"
  by (simp_all add: resolves_def entry_def is_dir_def)

lemma unsaved_load:
  "loadHistory_raw sample_env unsaved_cfg (w\<lparr>sent := s\<rparr>) = (\<lparr>Files = Some Map.empty\<rparr>, w\<lparr>sent := s\<rparr>)"
  if "fsys w = fsys start \<or> fsys w = fsys after_loop"
  using that
  by (auto simp: loadHistory_raw_def unsaved_fields target_paths Open_def resolves_sample is_dir_def
      start_def fresh_def after_loop_def Let_def)

lemma download_again:
  "downloadFile sample_env unsaved_cfg ''owner/project'' ''README.md''
     (downloadURL ''owner/project'' ''README.md'') w
   = w\<lparr>fsys := fsys after_loop,
       logged := logged w @ [FileDownloaded ''docs/project/README.md''],
       sent := sent w @ [\<lparr>req_url = downloadURL ''owner/project'' ''README.md'', req_authorization = None\<rparr>]\<rparr>"
  if "fsys w = fsys start \<or> fsys w = fsys after_loop"
  using that
  by (auto simp: downloadFile_def http_Get_def unsaved_fields target_paths sample_answers
      MkdirAll_def Create_def resolves_sample Write_def is_dir_def start_def fresh_def after_loop_def say_def
      Let_def insert_commute)

lemma unsaved_item:
  assumes "fsys w = fsys start \<or> fsys w = fsys after_loop"
  shows "listMdFiles_item_raw sample_env unsaved_cfg ''owner/project'' readme
           (\<lparr>Files = Some Map.empty\<rparr>, w)
         = Done (synced, w\<lparr>fsys := fsys after_loop,
              logged := logged w @ [DownloadingFile ''README.md'',
                                    FileDownloaded ''docs/project/README.md''],
              sent := sent w @ [\<lparr>req_url = downloadURL ''owner/project'' ''README.md'',
                                 req_authorization = None\<rparr>]\<rparr>)"
proof -
  have s: "shouldDownload_raw ''README.md'' ''sha1'' \<lparr>Files = Some Map.empty\<rparr>"
    by (simp add: shouldDownload_raw_def lookup_def)
  have f: "fsys (say m w) = fsys start \<or> fsys (say m w) = fsys after_loop" for m
    using assms by (simp add: say_def)
  have i: "listMdFiles_item_raw sample_env unsaved_cfg ''owner/project'' readme
           (\<lparr>Files = Some Map.empty\<rparr>, w)
      = assign_Files \<lparr>Files = Some Map.empty\<rparr> ''README.md'' ''sha1''
          (downloadFile sample_env unsaved_cfg ''owner/project'' ''README.md''
             (downloadURL ''owner/project'' ''README.md'') (say (DownloadingFile ''README.md'') w))"
    by (simp add: listMdFiles_item_raw_def readme_fields s not_ignored_sample Let_def)
  show ?thesis
    unfolding i download_again [OF f]
    by (simp add: assign_Files_def synced_def say_def)
qed

lemma unsaved_save:
  assumes "fsys w = fsys after_loop"
  shows "saveHistory sample_env unsaved_cfg h w = say (FailedCreateHistory ''state/history.json'') w"
  using assms
  by (simp add: saveHistory_def unsaved_fields target_paths Create_def resolves_sample is_dir_def after_loop_def)

lemma unsaved_pass_step:
  assumes "fsys w = fsys start \<or> fsys w = fsys after_loop"
  shows "listMdFiles_raw sample_env unsaved_cfg ''owner/project'' w
     = Done (w\<lparr>fsys := fsys after_loop,
         logged := logged w @
           [DownloadingFile ''README.md'', FileDownloaded ''docs/project/README.md'',
            FailedCreateHistory ''state/history.json''],
         sent := sent w @
           [listing_request sample_cfg ''owner/project'',
            \<lparr>req_url = downloadURL ''owner/project'' ''README.md'', req_authorization = None\<rparr>]\<rparr>)"
proof -
  let ?lr = "listing_request sample_cfg ''owner/project''"
  let ?dl = "\<lparr>req_url = downloadURL ''owner/project'' ''README.md'', req_authorization = None\<rparr>"
  let ?w1 = "w\<lparr>sent := sent w @ [?lr]\<rparr>"
  let ?w2 = "?w1\<lparr>fsys := fsys after_loop,
              logged := logged ?w1 @ [DownloadingFile ''README.md'',
                                    FileDownloaded ''docs/project/README.md''],
              sent := sent ?w1 @ [?dl]\<rparr>"
  have listed: "NewRequest_ok sample_env (contentsURL (TrimPrefix ''owner/project'' ''https://github.com/''))"
    "transport sample_env (listing_request unsaved_cfg ''owner/project'')
       = Some \<lparr>body = tree_bytes, body_broken = False\<rparr>"
    "decode_tree sample_env (body \<lparr>body = tree_bytes, body_broken = False\<rparr>) = Some [readme]"
    using sample_listing by (simp_all add: unsaved_fields)
  have l: "loadHistory_raw sample_env unsaved_cfg ?w1 = (\<lparr>Files = Some Map.empty\<rparr>, ?w1)"
    using unsaved_load [OF assms] .
  have f1: "fsys ?w1 = fsys start \<or> fsys ?w1 = fsys after_loop"
    using assms by simp
  have i: "listMdFiles_item_raw sample_env unsaved_cfg ''owner/project'' readme
           (\<lparr>Files = Some Map.empty\<rparr>, ?w1) = Done (synced, ?w2)"
    using unsaved_item [OF f1] .
  have f2: "fsys ?w2 = fsys after_loop" by simp
  have v: "saveHistory sample_env unsaved_cfg synced ?w2
      = say (FailedCreateHistory ''state/history.json'') ?w2"
    using unsaved_save [OF f2] .
  have "listMdFiles_raw sample_env unsaved_cfg ''owner/project'' w
      = Done (say (FailedCreateHistory ''state/history.json'') ?w2)"
    unfolding listMdFiles_raw_listed [OF listed] sample_trim unsaved_fields(3) l
    by (simp only: listMdFiles_loop_raw.simps i v outcome.case fst_conv snd_conv)
  then show ?thesis by (simp add: say_def)
qed

lemma sample_fetch_loop:
  "listMdFiles_loop sample_env sample_cfg ''owner/project'' [readme]
     (\<lparr>Files = Some Map.empty\<rparr>, start) = Done (synced, after_fetch)"
proof -
  have s: "shouldDownload ''README.md'' ''sha1'' \<lparr>Files = Some Map.empty\<rparr>"
    by (simp add: shouldDownload_def lookup_def)
  have v: "saveFile sample_cfg ''owner/project'' ''README.md'' ''# Hi'' w
      = w\<lparr>fsys := fsys after_fetch,
           logged := logged w @ [FileDownloaded ''docs/project/README.md'']\<rparr>"
    if "fsys w = fresh" for w
    using that
    by (simp add: saveFile_def sample_fields target_paths MkdirAll_def Create_def resolves_sample Write_def
        is_dir_def fresh_def after_fetch_def say_def Let_def insert_commute)
  show ?thesis
    by (simp add: listMdFiles_item_def readme_fields s not_ignored_sample Let_def sample_answers
        client_Do_def sample_fields v assign_Files_def synced_def after_fetch_def say_def
        start_def)
qed

lemma mistyped_load:
  "loadHistory_raw sample_env sample_cfg
     (mistyped\<lparr>sent := sent mistyped @ [listing_request sample_cfg ''owner/project'']\<rparr>)
   = (recovered, say (FailedParseHistory ''history.json'')
        (mistyped\<lparr>sent := sent mistyped @ [listing_request sample_cfg ''owner/project'']\<rparr>))"
  by (simp add: loadHistory_raw_def sample_fields target_paths Open_def resolves_sample mistyped_def
      sample_env_def mistyped_bytes_def saved_bytes_def recovered_def Let_def)

lemma mistyped_loop:
  "listMdFiles_loop_raw sample_env sample_cfg (TrimPrefix ''owner/project'' ''https://github.com/'')
     [readme]
     (recovered, say (FailedParseHistory ''history.json'')
        (mistyped\<lparr>sent := sent mistyped @ [listing_request sample_cfg ''owner/project'']\<rparr>))
   = Done (recovered_synced, after_recovery)"
proof -
  have s: "shouldDownload_raw ''README.md'' ''sha1'' recovered"
    by (simp add: shouldDownload_raw_def lookup_def recovered_def)
  have dl: "downloadFile sample_env sample_cfg ''owner/project'' ''README.md''
      (downloadURL ''owner/project'' ''README.md'') w
    = w\<lparr>fsys := fsys after_recovery,
         logged := logged w @ [FileDownloaded ''docs/project/README.md''],
         sent := sent w @ [\<lparr>req_url = downloadURL ''owner/project'' ''README.md'',
                            req_authorization = None\<rparr>]\<rparr>"
    if "fsys w = fsys mistyped" for w
    using that
    by (simp add: downloadFile_def http_Get_def sample_fields target_paths sample_answers
        MkdirAll_def Create_def resolves_sample Write_def is_dir_def mistyped_def after_recovery_def say_def
        Let_def insert_commute)
  have i: "listMdFiles_item_raw sample_env sample_cfg ''owner/project'' readme (recovered, w)
      = assign_Files recovered ''README.md'' ''sha1''
          (downloadFile sample_env sample_cfg ''owner/project'' ''README.md''
             (downloadURL ''owner/project'' ''README.md'') (say (DownloadingFile ''README.md'') w))"
    for w
    by (simp add: listMdFiles_item_raw_def readme_fields s not_ignored_sample Let_def)
  have f: "fsys (say m (say m' (mistyped\<lparr>sent := x\<rparr>))) = fsys mistyped" for m m' x
    by (simp add: say_def)
  show ?thesis
    unfolding sample_trim listMdFiles_loop_raw.simps i dl [OF f]
    by (simp add: assign_Files_def recovered_def recovered_synced_def after_recovery_def
        say_def mistyped_def)
qed


lemma saveFile_failure_recorded_as_synced:
  "listMdFiles_item sample_env sample_cfg ''owner/project'' readme
     (\<lparr>Files = Some Map.empty\<rparr>, blocked)
   = Done (\<lparr>Files = Some [''README.md'' \<mapsto> ''sha1'']\<rparr>,
           blocked\<lparr>logged := [DownloadingFile ''README.md'', FailedCreateDirectory ''docs/project''],
                   sent := [\<lparr>req_url = Url readme, req_authorization = Some ''Bearer token''\<rparr>]\<rparr>)"
  by (simp add: listMdFiles_item_def shouldDownload_def lookup_def isIgnored_def Ext_def
      client_Do_def bearer_def assign_Files_def saveFile_def sample_defs blocked_def
      path_defs fs_defs say_def Let_def contentsURL_def blob_bytes_def)

lemma blocked_download:
  assumes "fsys w = fsys blocked \<or> fsys w = fsys blocked_pass"
  shows "downloadFile sample_env sample_cfg ''owner/project'' ''README.md''
           (downloadURL ''owner/project'' ''README.md'') w
         = say (FailedCreateDirectory ''docs/project'') w"
  using assms
  by (auto simp: downloadFile_def sample_fields target_paths MkdirAll_def blocked_def
      blocked_pass_def Let_def)

lemma blocked_first_pass:
  "listMdFiles_raw sample_env sample_cfg ''owner/project'' blocked = Done blocked_pass"
proof -
  let ?w1 = "blocked\<lparr>sent := sent blocked @ [listing_request sample_cfg ''owner/project'']\<rparr>"
  have l: "loadHistory_raw sample_env sample_cfg ?w1 = (\<lparr>Files = Some Map.empty\<rparr>, ?w1)"
    by (simp add: loadHistory_raw_def sample_fields target_paths Open_def resolves_sample
        is_dir_def blocked_def)
  have s: "shouldDownload_raw ''README.md'' ''sha1'' \<lparr>Files = Some Map.empty\<rparr>"
    by (simp add: shouldDownload_raw_def lookup_def)
  have f: "fsys (say m ?w1) = fsys blocked \<or> fsys (say m ?w1) = fsys blocked_pass" for m
    by (simp add: say_def)
  have i: "listMdFiles_item_raw sample_env sample_cfg ''owner/project'' readme
             (\<lparr>Files = Some Map.empty\<rparr>, ?w1)
      = Done (synced, say (FailedCreateDirectory ''docs/project'')
                 (say (DownloadingFile ''README.md'') ?w1))"
    by (simp add: listMdFiles_item_raw_def readme_fields s not_ignored_sample Let_def
        blocked_download [OF f] assign_Files_def synced_def)
  have v: "saveHistory sample_env sample_cfg synced
             (say (FailedCreateDirectory ''docs/project'') (say (DownloadingFile ''README.md'') ?w1))
           = blocked_pass"
    by (simp add: saveHistory_def sample_fields target_paths Create_def Write_def resolves_sample
        is_dir_def sample_env_def lookup_def synced_def blocked_def blocked_pass_def say_def)
  show ?thesis
    unfolding listMdFiles_raw_listed [OF sample_listing(1-3)] sample_trim l
    by (simp only: listMdFiles_loop_raw.simps i v outcome.case fst_conv snd_conv)
qed

lemma blocked_second_pass:
  "listMdFiles_raw sample_env sample_cfg ''owner/project'' blocked_pass
   = Done (blocked_pass\<lparr>logged := logged blocked_pass @ [SkippingFile ''README.md''],
                         sent := sent blocked_pass @ [listing_request sample_cfg ''owner/project'']\<rparr>)"
proof -
  let ?w1 = "blocked_pass\<lparr>sent := sent blocked_pass @ [listing_request sample_cfg ''owner/project'']\<rparr>"
  have l: "loadHistory_raw sample_env sample_cfg ?w1 = (synced, ?w1)"
    by (simp add: loadHistory_raw_def sample_fields target_paths Open_def resolves_sample
        blocked_pass_def sample_env_def synced_def Let_def)
  have s: "\<not> shouldDownload_raw ''README.md'' ''sha1'' synced"
    by (simp add: shouldDownload_raw_def lookup_def synced_def)
  have i: "listMdFiles_item_raw sample_env sample_cfg ''owner/project'' readme (synced, ?w1)
      = Done (synced, say (SkippingFile ''README.md'') ?w1)"
    by (simp add: listMdFiles_item_raw_def readme_fields s Let_def)
  have v: "saveHistory sample_env sample_cfg synced (say (SkippingFile ''README.md'') ?w1)
           = say (SkippingFile ''README.md'') ?w1"
    by (simp add: saveHistory_def sample_fields target_paths Create_def Write_def resolves_sample
        is_dir_def sample_env_def lookup_def synced_def blocked_pass_def say_def)
  have "listMdFiles_raw sample_env sample_cfg ''owner/project'' blocked_pass
      = Done (say (SkippingFile ''README.md'') ?w1)"
    unfolding listMdFiles_raw_listed [OF sample_listing(1-3)] sample_trim l
    by (simp only: listMdFiles_loop_raw.simps i v outcome.case fst_conv snd_conv)
  then show ?thesis by (simp add: say_def)
qed

lemma mistyped_load_command:
  "loadHistory sample_env sample_cfg mistyped
     = (recovered, say (FailedParseHistory ''history.json'') mistyped)"
  by (simp add: loadHistory_def sample_fields target_paths Open_def resolves_sample mistyped_def
      sample_env_def mistyped_bytes_def saved_bytes_def recovered_def Let_def)

lemma mistyped_load_raw:
  "loadHistory_raw sample_env sample_cfg mistyped
     = (recovered, say (FailedParseHistory ''history.json'') mistyped)"
  by (simp add: loadHistory_raw_def sample_fields target_paths Open_def resolves_sample mistyped_def
      sample_env_def mistyped_bytes_def saved_bytes_def recovered_def Let_def)

lemma mistyped_pass:
  "listMdFiles_raw sample_env sample_cfg ''owner/project'' mistyped
     = Done (saveHistory sample_env sample_cfg recovered_synced after_recovery)"
  unfolding listMdFiles_raw_listed [OF sample_listing(1-3)] mistyped_load mistyped_loop
  by simp

lemma nulled_pass:
  "listMdFiles_raw sample_env sample_cfg ''owner/project'' nulled = Panicked nulled_end"
proof -
  let ?w1 = "nulled\<lparr>sent := sent nulled @ [listing_request sample_cfg ''owner/project'']\<rparr>"
  have l: "loadHistory_raw sample_env sample_cfg ?w1 = (\<lparr>Files = None\<rparr>, ?w1)"
    by (simp add: loadHistory_raw_def sample_fields target_paths Open_def resolves_sample
        nulled_def sample_env_def null_bytes_def mistyped_bytes_def saved_bytes_def Let_def)
  have s: "shouldDownload_raw ''README.md'' ''sha1'' \<lparr>Files = None\<rparr>"
    by (simp add: shouldDownload_raw_def lookup_def)
  have dl: "downloadFile sample_env sample_cfg ''owner/project'' ''README.md''
      (downloadURL ''owner/project'' ''README.md'') (say (DownloadingFile ''README.md'') ?w1)
    = nulled_end"
    by (simp add: downloadFile_def http_Get_def sample_fields target_paths sample_answers
        MkdirAll_def Create_def resolves_sample Write_def is_dir_def nulled_def nulled_end_def
        say_def Let_def insert_commute)
  have i: "listMdFiles_item_raw sample_env sample_cfg ''owner/project'' readme (\<lparr>Files = None\<rparr>, ?w1)
      = Panicked nulled_end"
    by (simp add: listMdFiles_item_raw_def readme_fields s not_ignored_sample Let_def dl
        assign_Files_def)
  show ?thesis
    unfolding listMdFiles_raw_listed [OF sample_listing(1-3)] sample_trim l
    by (simp only: listMdFiles_loop_raw.simps i outcome.case)
qed

section \<open>The claims\<close>

subsection \<open>C1: a missing or failed entry is fetched\<close>

text \<open>
  C1. When the path is absent from the record, or the record holds the error marker
  \<open>ERROR\<close> for it, \<open>shouldDownload\<close> of the command answers true (fetch) whatever the
  current remote content identifier is. \<open>shouldDownload\<close> of \<^verbatim>\<open>md-downloader.go\<close>, which
  knows no error marker, answers true for an absent path.
\<close>

theorem shouldDownload_absent_or_error:
  assumes "lookup history filePath = None \<or> lookup history filePath = Some ''ERROR''"
  shows "shouldDownload filePath sha history
       \<and> (lookup history filePath = None \<longrightarrow> shouldDownload_raw filePath sha history)"
  using assms by (auto simp: shouldDownload_def shouldDownload_raw_def)

theorem shouldDownload_absent_or_error_witness:
  "shouldDownload ''guide.md'' ''ERROR'' failed
   \<and> shouldDownload ''guide.md'' ''sha2'' failed
   \<and> shouldDownload ''README.md'' ''sha1'' failed
   \<and> shouldDownload_raw ''README.md'' ''sha1'' failed"
proof -
  have a: "lookup failed ''guide.md'' = None \<or> lookup failed ''guide.md'' = Some ''ERROR''"
    by (simp add: lookup_def failed_def)
  have b: "lookup failed ''README.md'' = None"
    by (simp add: lookup_def failed_def)
  have c: "lookup failed ''README.md'' = None \<or> lookup failed ''README.md'' = Some ''ERROR''"
    using b by simp
  show ?thesis
    using shouldDownload_absent_or_error [OF a, of "''ERROR''"]
      shouldDownload_absent_or_error [OF a, of "''sha2''"]
      shouldDownload_absent_or_error [OF c, of "''sha1''"] b
    by simp
qed

subsection \<open>C2: a failed download is recorded as a success\<close>

text \<open>
  C2 says that a failed fetch, decode or write sets the record entry to the error marker and
  the loop goes on. In \<^verbatim>\<open>md-downloader.go\<close> the entry is set to the item's sha whatever
  \<^verbatim>\<open>downloadFile\<close> did (\<open>download_outcome_not_recorded\<close>). Here a whole pass runs in a
  world where the output root \<open>docs\<close> is a regular file: \<^verbatim>\<open>os.MkdirAll\<close> fails, the
  failure is logged, no file is written, the record file is saved with \<open>sha1\<close> for
  \<open>README.md\<close>, and the next pass skips the file as up to date. In the loop body of the
  command the three failures of the fetch do set \<open>ERROR\<close> (\<open>fetch_failure_marks_error\<close>),
  and a failure inside \<^verbatim>\<open>saveFile\<close> is recorded as the sha all the same
  (\<open>saveFile_outcome_not_recorded\<close>, \<open>saveFile_failure_recorded_as_synced\<close>).
\<close>

theorem download_failure_recorded_as_synced:
  "listMdFiles_raw sample_env sample_cfg ''owner/project'' blocked = Done blocked_pass
   \<and> logged blocked_pass = [DownloadingFile ''README.md'', FailedCreateDirectory ''docs/project'']
   \<and> files (fsys blocked_pass) ''docs/project/README.md'' = None
   \<and> files (fsys blocked_pass) ''history.json'' = Some (encode_History sample_env synced)
   \<and> lookup synced ''README.md'' = Some ''sha1''
   \<and> lookup synced ''README.md'' \<noteq> Some ''ERROR''
   \<and> listMdFiles_raw sample_env sample_cfg ''owner/project'' blocked_pass
     = Done (blocked_pass\<lparr>logged := logged blocked_pass @ [SkippingFile ''README.md''],
                           sent := sent blocked_pass @ [listing_request sample_cfg ''owner/project'']\<rparr>)"
  using blocked_first_pass blocked_second_pass
  by (simp add: blocked_pass_def lookup_def synced_def sample_env_def)

subsection \<open>C3: an excluded path is never fetched and its entry never touched\<close>

text \<open>
  C3, as the code has it. For a path excluded for the repository: a candidate with that path
  makes no request, writes no file and leaves the record as it is, and the loop body reports
  \<open>Ignoring file\<close> (\<open>SKIP_EXCLUDED\<close>) when \<open>shouldDownload\<close> holds and \<open>Skipping file\<close>
  (\<open>SKIP_CURRENT\<close>) when it does not, since the staleness test is the outer one; over a whole
  tree, in both programs, no fetch is reported for the path and the record entry of the path
  after the loop is the one before it.
\<close>

theorem excluded_never_fetched_nor_recorded:
  assumes "isIgnored cfg repo p"
  shows "(candidate item \<and> Path item = p \<longrightarrow>
            listMdFiles_item e cfg repo item (h, w)
              = Done (h, say (if shouldDownload p (Sha item) h
                              then IgnoringFile p else SkippingFile p) w)
          \<and> listMdFiles_item_raw e cfg repo item (h, w)
              = Done (h, say (if shouldDownload_raw p (Sha item) h
                              then IgnoringFile p else SkippingFile p) w))
       \<and> (\<exists>ms. logged (end_world (listMdFiles_loop e cfg repo tree (h, w))) = logged w @ ms
              \<and> (p, FETCH) \<notin> set (decisions ms))
       \<and> (\<exists>ms. logged (end_world (listMdFiles_loop_raw e cfg repo tree (h, w))) = logged w @ ms
              \<and> (p, FETCH) \<notin> set (decisions ms))
       \<and> (\<forall>h' w'. listMdFiles_loop e cfg repo tree (h, w) = Done (h', w')
              \<longrightarrow> lookup h' p = lookup h p)
       \<and> (\<forall>h' w'. listMdFiles_loop_raw e cfg repo tree (h, w) = Done (h', w')
              \<longrightarrow> lookup h' p = lookup h p)"
proof -
  have a: "candidate item \<and> Path item = p \<longrightarrow>
            listMdFiles_item e cfg repo item (h, w)
              = Done (h, say (if shouldDownload p (Sha item) h
                              then IgnoringFile p else SkippingFile p) w)
          \<and> listMdFiles_item_raw e cfg repo item (h, w)
              = Done (h, say (if shouldDownload_raw p (Sha item) h
                              then IgnoringFile p else SkippingFile p) w)"
    using assms item_excluded [of cfg repo item e h w] by auto
  have b: "\<exists>ms. logged (end_world (listMdFiles_loop e cfg repo tree (h, w))) = logged w @ ms
              \<and> (p, FETCH) \<notin> set (decisions ms)"
    using loop_decisions [of e cfg repo tree h w] assms by fastforce
  have c: "\<exists>ms. logged (end_world (listMdFiles_loop_raw e cfg repo tree (h, w))) = logged w @ ms
              \<and> (p, FETCH) \<notin> set (decisions ms)"
    using loop_raw_decisions [of e cfg repo tree h w] assms by fastforce
  have d: "\<forall>h' w'. listMdFiles_loop e cfg repo tree (h, w) = Done (h', w')
              \<longrightarrow> lookup h' p = lookup h p"
    using loop_frame [of e cfg repo tree h w _ _ p] assms by blast
  have f: "\<forall>h' w'. listMdFiles_loop_raw e cfg repo tree (h, w) = Done (h', w')
              \<longrightarrow> lookup h' p = lookup h p"
    using loop_raw_frame [of e cfg repo tree h w _ _ p] assms by blast
  show ?thesis using a b c d f by blast
qed

theorem excluded_never_fetched_nor_recorded_witness:
  "listMdFiles_item sample_env ignoring_cfg ''owner/project'' readme (outdated, start)
     = Done (outdated, say (IgnoringFile ''README.md'') start)
   \<and> listMdFiles_item_raw sample_env ignoring_cfg ''owner/project'' readme (outdated, start)
     = Done (outdated, say (IgnoringFile ''README.md'') start)
   \<and> (\<exists>ms. logged (end_world (listMdFiles_loop sample_env ignoring_cfg ''owner/project''
                 [readme] (outdated, start))) = logged start @ ms
          \<and> (''README.md'', FETCH) \<notin> set (decisions ms))"
proof -
  have s: "shouldDownload ''README.md'' (Sha readme) outdated"
    "shouldDownload_raw ''README.md'' (Sha readme) outdated"
    by (simp_all add: shouldDownload_def shouldDownload_raw_def lookup_def outdated_def readme_fields)
  show ?thesis
    using excluded_never_fetched_nor_recorded [OF ignoring_readme,
        of readme sample_env outdated start "[readme]"] s readme_fields(2,6)
    by (simp del: listMdFiles_loop.simps listMdFiles_loop_raw.simps)
qed

text \<open>
  C3 as stated fails: the decision for an excluded candidate is not always
  \<open>SKIP_EXCLUDED\<close>. With \<open>README.md\<close> excluded and recorded with its current sha, both loop
  bodies take the branch \<open>Skipping file: README.md (already up to date)\<close>.
\<close>

theorem excluded_unchanged_file_reported_current:
  "isIgnored ignoring_cfg ''owner/project'' (Path readme) \<and> candidate readme
   \<and> lookup synced (Path readme) = Some (Sha readme)
   \<and> listMdFiles_item sample_env ignoring_cfg ''owner/project'' readme (synced, start)
     = Done (synced, say (SkippingFile ''README.md'') start)
   \<and> listMdFiles_item_raw sample_env ignoring_cfg ''owner/project'' readme (synced, start)
     = Done (synced, say (SkippingFile ''README.md'') start)
   \<and> decisions (logged (say (SkippingFile ''README.md'') start)) = [(''README.md'', SKIP_CURRENT)]"
proof -
  have l: "lookup synced ''README.md'' = Some ''sha1''"
    by (simp add: lookup_def synced_def)
  have s: "\<not> shouldDownload ''README.md'' ''sha1'' synced"
    "\<not> shouldDownload_raw ''README.md'' ''sha1'' synced"
    using l by (simp_all add: shouldDownload_def shouldDownload_raw_def)
  have a: "listMdFiles_item sample_env ignoring_cfg ''owner/project'' readme (synced, start)
     = Done (synced, say (SkippingFile ''README.md'') start)"
    by (simp add: listMdFiles_item_def readme_fields s Let_def)
  have b: "listMdFiles_item_raw sample_env ignoring_cfg ''owner/project'' readme (synced, start)
     = Done (synced, say (SkippingFile ''README.md'') start)"
    by (simp add: listMdFiles_item_raw_def readme_fields s Let_def)
  have d: "decisions (logged (say (SkippingFile ''README.md'') start)) = [(''README.md'', SKIP_CURRENT)]"
    by (simp add: say_def start_def)
  show ?thesis using ignoring_readme l a b d by (simp add: readme_fields)
qed

subsection \<open>C4: only the repository directory is created\<close>

text \<open>
  C4 says that parent directories are created as needed. \<^verbatim>\<open>os.MkdirAll\<close> is called on
  \<open>docs/project\<close> only (\<open>saveFile_directories\<close>, \<open>downloadFile_directories\<close>), so for the
  path \<open>docs/intro.md\<close> of repository \<open>owner/project\<close> and an empty output root,
  \<^verbatim>\<open>os.Create\<close> of \<open>docs/project/docs/intro.md\<close> fails and no file is written.
\<close>

theorem saveFile_nested_path_not_written:
  "saveFile sample_cfg ''owner/project'' ''docs/intro.md'' ''# Intro'' start
   = \<lparr>fsys = \<lparr>dirs = {''docs'', ''docs/project''}, files = Map.empty, nospace = False\<rparr>,
      logged = [FailedCreateFile ''docs/project/docs/intro.md''], sent = []\<rparr>"
  by (simp add: saveFile_def sample_defs path_defs fs_defs say_def Let_def insert_commute)

subsection \<open>C5: a second pass over an unchanged tree\<close>

text \<open>
  C5, as the code has it. Let no two candidate entries of the tree share a path. For
  \<^verbatim>\<open>md-downloader.go\<close>: when the listing succeeds, the first pass returns, and the second pass
  reads back the record the first one saved, then the second pass sends the listing request
  and nothing else, and every candidate is reported \<open>SKIP_CURRENT\<close>, or \<open>SKIP_EXCLUDED\<close>
  for an excluded path. For the loop of the command: when the first loop left no candidate at
  \<open>ERROR\<close>, a second loop from the record and the world it ended in changes neither the
  record nor the file system, sends nothing, and reports the same two decisions.
\<close>

theorem second_pass_fetches_nothing:
  assumes d: "distinct (map Path (filter candidate tree))"
    and ok: "NewRequest_ok e (contentsURL (TrimPrefix repo0 ''https://github.com/''))"
    and tr: "transport e (listing_request cfg repo0) = Some resp"
    and dt: "decode_tree e (body resp) = Some tree"
    and loop1: "listMdFiles_loop_raw e cfg (TrimPrefix repo0 ''https://github.com/'') tree
                  (loadHistory_raw e cfg (w\<lparr>sent := sent w @ [listing_request cfg repo0]\<rparr>))
                = Done (h1, wb)"
    and w1: "w1 = saveHistory e cfg h1 wb"
    and pers: "fst (loadHistory_raw e cfg (w1\<lparr>sent := sent w1 @ [listing_request cfg repo0]\<rparr>)) = h1"
    and loopc: "listMdFiles_loop e cfg (TrimPrefix repo0 ''https://github.com/'') tree (hc0, wc0)
                = Done (hc, wc)"
    and noerr: "\<forall>i \<in> set tree. candidate i
                  \<and> \<not> isIgnored cfg (TrimPrefix repo0 ''https://github.com/'') (Path i)
                  \<longrightarrow> lookup hc (Path i) \<noteq> Some ''ERROR''"
  shows "listMdFiles_raw e cfg repo0 w = Done w1
     \<and> (\<exists>w2 ms. listMdFiles_raw e cfg repo0 w1 = Done w2
          \<and> sent w2 = sent w1 @ [listing_request cfg repo0]
          \<and> logged w2 = logged w1 @ ms
          \<and> map fst (decisions ms) = map Path (filter candidate tree)
          \<and> (\<forall>qd \<in> set (decisions ms). snd qd = SKIP_CURRENT
                \<or> snd qd = SKIP_EXCLUDED
                  \<and> isIgnored cfg (TrimPrefix repo0 ''https://github.com/'') (fst qd)))
     \<and> (\<exists>ms. listMdFiles_loop e cfg (TrimPrefix repo0 ''https://github.com/'') tree (hc, wc)
                 = Done (hc, wc\<lparr>logged := logged wc @ ms\<rparr>)
          \<and> map fst (decisions ms) = map Path (filter candidate tree)
          \<and> (\<forall>qd \<in> set (decisions ms). snd qd = SKIP_CURRENT
                \<or> snd qd = SKIP_EXCLUDED
                  \<and> isIgnored cfg (TrimPrefix repo0 ''https://github.com/'') (fst qd)))"
proof -
  let ?repo = "TrimPrefix repo0 ''https://github.com/''"
  have syn: "\<forall>i \<in> set tree. candidate i \<and> \<not> isIgnored cfg ?repo (Path i)
           \<longrightarrow> lookup hc (Path i) = Some (Sha i) \<and> Sha i \<noteq> ''ERROR''"
    using loop_synced [OF loopc d] noerr by fastforce
  obtain ms where ms: "listMdFiles_loop e cfg ?repo tree (hc, wc)
       = Done (hc, wc\<lparr>logged := logged wc @ ms\<rparr>)"
    "decisions ms = map (\<lambda>i. (Path i, if shouldDownload (Path i) (Sha i) hc
                                         then SKIP_EXCLUDED else SKIP_CURRENT))
                         (filter candidate tree)"
    using loop_current [OF syn] by blast
  have stale: "isIgnored cfg ?repo (Path i)"
    if "i \<in> set tree" "candidate i" "shouldDownload (Path i) (Sha i) hc" for i
    using syn that by (auto simp: shouldDownload_def)
  have names: "map fst (decisions ms) = map Path (filter candidate tree)"
    using ms(2) by (simp add: comp_def)
  have kinds: "\<forall>qd \<in> set (decisions ms). snd qd = SKIP_CURRENT
                \<or> snd qd = SKIP_EXCLUDED \<and> isIgnored cfg ?repo (fst qd)"
    using ms(2) stale by auto
  show ?thesis
    using second_pass_raw [OF ok tr dt d loop1 w1 pers] ms(1) names kinds by blast
qed

theorem second_pass_fetches_nothing_witness:
  "listMdFiles_raw sample_env sample_cfg ''owner/project'' start = Done after_pass
   \<and> (\<exists>w2 ms. listMdFiles_raw sample_env sample_cfg ''owner/project'' after_pass = Done w2
        \<and> sent w2 = sent after_pass @ [listing_request sample_cfg ''owner/project'']
        \<and> logged w2 = logged after_pass @ ms
        \<and> decisions ms = [(''README.md'', SKIP_CURRENT)])
   \<and> (\<exists>ms. listMdFiles_loop sample_env sample_cfg ''owner/project'' [readme] (synced, after_fetch)
               = Done (synced, after_fetch\<lparr>logged := logged after_fetch @ ms\<rparr>)
        \<and> decisions ms = [(''README.md'', SKIP_CURRENT)])"
proof -
  have l: "listMdFiles_loop_raw sample_env sample_cfg
             (TrimPrefix ''owner/project'' ''https://github.com/'') [readme]
             (loadHistory_raw sample_env sample_cfg
                (start\<lparr>sent := sent start @ [listing_request sample_cfg ''owner/project'']\<rparr>))
           = Done (synced, after_loop)"
    using sample_loop by (simp add: sample_load_start sample_trim)
  have lc: "listMdFiles_loop sample_env sample_cfg
             (TrimPrefix ''owner/project'' ''https://github.com/'') [readme]
             (\<lparr>Files = Some Map.empty\<rparr>, start) = Done (synced, after_fetch)"
    using sample_fetch_loop by (simp only: sample_trim)
  have ne: "\<forall>i \<in> set [readme]. candidate i
              \<and> \<not> isIgnored sample_cfg (TrimPrefix ''owner/project'' ''https://github.com/'') (Path i)
              \<longrightarrow> lookup synced (Path i) \<noteq> Some ''ERROR''"
    by (simp add: readme_fields lookup_def synced_def)
  have c: "filter candidate [readme] = [readme]" "Path readme = ''README.md''"
    by (simp_all add: readme_fields)
  have pick: "ds = [(''README.md'', SKIP_CURRENT)]"
    if "map fst ds = map Path (filter candidate [readme])"
      and "\<forall>qd \<in> set ds. snd qd = SKIP_CURRENT
                \<or> snd qd = SKIP_EXCLUDED
                  \<and> isIgnored sample_cfg (TrimPrefix ''owner/project'' ''https://github.com/'') (fst qd)"
    for ds :: "(string \<times> decision) list"
  proof -
    from that(1) c obtain x where x: "ds = [(''README.md'', x)]"
      by (cases ds) auto
    then show ?thesis using that(2) not_ignored_sample(1) by auto
  qed
  from second_pass_fetches_nothing
    [OF sample_listing(4) sample_listing(1-3) l sample_save [symmetric] sample_reload lc ne]
  obtain w2 ms mc where f: "listMdFiles_raw sample_env sample_cfg ''owner/project'' start = Done after_pass"
    and s: "listMdFiles_raw sample_env sample_cfg ''owner/project'' after_pass = Done w2"
      "sent w2 = sent after_pass @ [listing_request sample_cfg ''owner/project'']"
      "logged w2 = logged after_pass @ ms"
    and names: "map fst (decisions ms) = map Path (filter candidate [readme])"
    and kinds: "\<forall>qd \<in> set (decisions ms). snd qd = SKIP_CURRENT
                \<or> snd qd = SKIP_EXCLUDED
                  \<and> isIgnored sample_cfg (TrimPrefix ''owner/project'' ''https://github.com/'') (fst qd)"
    and cm: "listMdFiles_loop sample_env sample_cfg
               (TrimPrefix ''owner/project'' ''https://github.com/'') [readme] (synced, after_fetch)
               = Done (synced, after_fetch\<lparr>logged := logged after_fetch @ mc\<rparr>)"
    and cnames: "map fst (decisions mc) = map Path (filter candidate [readme])"
    and ckinds: "\<forall>qd \<in> set (decisions mc). snd qd = SKIP_CURRENT
                \<or> snd qd = SKIP_EXCLUDED
                  \<and> isIgnored sample_cfg (TrimPrefix ''owner/project'' ''https://github.com/'') (fst qd)"
    by blast
  have "decisions ms = [(''README.md'', SKIP_CURRENT)]"
    using pick [OF names kinds] .
  moreover have "decisions mc = [(''README.md'', SKIP_CURRENT)]"
    using pick [OF cnames ckinds] .
  moreover have "listMdFiles_loop sample_env sample_cfg ''owner/project'' [readme] (synced, after_fetch)
               = Done (synced, after_fetch\<lparr>logged := logged after_fetch @ mc\<rparr>)"
    using cm by (simp only: sample_trim)
  ultimately show ?thesis using f s by blast
qed

text \<open>
  C5 as stated fails. In \<^verbatim>\<open>md-downloader.go\<close>, when the record file cannot be created
  (its directory \<open>state\<close> does not exist) the first pass saves nothing and the second pass
  downloads \<open>README.md\<close> again. In the command, a blob that the remote side does not
  deliver leaves \<open>ERROR\<close> in the record, and the second loop fetches it again.
\<close>

theorem second_pass_fetches_again:
  "listMdFiles_raw sample_env unsaved_cfg ''owner/project'' start = Done unsaved_pass
   \<and> listMdFiles_raw sample_env unsaved_cfg ''owner/project'' unsaved_pass
     = Done (unsaved_pass\<lparr>
         logged := logged unsaved_pass @
           [DownloadingFile ''README.md'', FileDownloaded ''docs/project/README.md'',
            FailedCreateHistory ''state/history.json''],
         sent := sent unsaved_pass @
           [listing_request sample_cfg ''owner/project'',
            \<lparr>req_url = downloadURL ''owner/project'' ''README.md'', req_authorization = None\<rparr>]\<rparr>)
   \<and> decisions [DownloadingFile ''README.md'', FileDownloaded ''docs/project/README.md'',
                 FailedCreateHistory ''state/history.json''] = [(''README.md'', FETCH)]
   \<and> listMdFiles_loop sample_env sample_cfg ''owner/project'' [guide]
        (\<lparr>Files = Some Map.empty\<rparr>, start) = Done (failed, after_failure)
   \<and> listMdFiles_loop sample_env sample_cfg ''owner/project'' [guide] (failed, after_failure)
     = Done (failed, after_failure\<lparr>
         logged := logged after_failure @ [DownloadingFile ''guide.md'', FailedSendRequest],
         sent := sent after_failure @
           [\<lparr>req_url = Url guide, req_authorization = Some ''Bearer token''\<rparr>]\<rparr>)"
proof -
  have a: "listMdFiles_raw sample_env unsaved_cfg ''owner/project'' start = Done unsaved_pass"
    using unsaved_pass_step [of start]
    by (simp add: unsaved_pass_def after_loop_def start_def)
  have b: "listMdFiles_raw sample_env unsaved_cfg ''owner/project'' unsaved_pass
     = Done (unsaved_pass\<lparr>
         logged := logged unsaved_pass @
           [DownloadingFile ''README.md'', FileDownloaded ''docs/project/README.md'',
            FailedCreateHistory ''state/history.json''],
         sent := sent unsaved_pass @
           [listing_request sample_cfg ''owner/project'',
            \<lparr>req_url = downloadURL ''owner/project'' ''README.md'', req_authorization = None\<rparr>]\<rparr>)"
    using unsaved_pass_step [of unsaved_pass]
    by (simp add: unsaved_pass_def)
  have c: "decisions [DownloadingFile ''README.md'', FileDownloaded ''docs/project/README.md'',
                 FailedCreateHistory ''state/history.json''] = [(''README.md'', FETCH)]"
    by simp
  have s0: "shouldDownload ''guide.md'' ''sha2'' \<lparr>Files = Some Map.empty\<rparr>"
    "shouldDownload ''guide.md'' ''sha2'' \<lparr>Files = Some [''guide.md'' \<mapsto> ''ERROR'']\<rparr>"
    by (simp_all add: shouldDownload_def lookup_def)
  have d: "listMdFiles_loop sample_env sample_cfg ''owner/project'' [guide]
        (\<lparr>Files = Some Map.empty\<rparr>, start) = Done (failed, after_failure)"
    by (simp add: listMdFiles_item_def guide_fields s0 not_ignored_sample Let_def sample_answers
        client_Do_def sample_fields assign_Files_def failed_def after_failure_def say_def start_def)
  have e: "listMdFiles_loop sample_env sample_cfg ''owner/project'' [guide] (failed, after_failure)
     = Done (failed, after_failure\<lparr>
         logged := logged after_failure @ [DownloadingFile ''guide.md'', FailedSendRequest],
         sent := sent after_failure @
           [\<lparr>req_url = Url guide, req_authorization = Some ''Bearer token''\<rparr>]\<rparr>)"
    by (simp add: listMdFiles_item_def guide_fields s0 not_ignored_sample Let_def sample_answers
        client_Do_def sample_fields assign_Files_def failed_def say_def)
  show ?thesis using a b c d e by simp
qed

subsection \<open>C6: a failed listing ends the pass\<close>

text \<open>
  C6. When the request for the tree fails or its answer does not decode (in the command
  also when reading the body fails), the pass returns after one message: the request is the
  only one sent, the file system is as before (the record is neither loaded nor saved), and
  no tree entry is looked at.
\<close>

theorem listing_failure_aborts:
  assumes "NewRequest_ok e (contentsURL (TrimPrefix repo0 ''https://github.com/''))"
  shows "(transport e (listing_request cfg repo0) = None
          \<or> (\<exists>resp. transport e (listing_request cfg repo0) = Some resp
                \<and> decode_tree e (body resp) = None)
          \<longrightarrow> listMdFiles_raw e cfg repo0 w
                \<in> {Done (gave_up cfg repo0 FailedSendRequest w),
                    Done (gave_up cfg repo0 FailedDecodeJSON w)})
       \<and> (transport e (listing_request cfg repo0) = None
          \<or> (\<exists>resp. transport e (listing_request cfg repo0) = Some resp
                \<and> (body_broken resp \<or> decode_tree e [] = None))
          \<longrightarrow> listMdFiles e cfg repo0 w
                \<in> {Done (gave_up cfg repo0 FailedSendRequest w),
                    Done (gave_up cfg repo0 FailedReadBody w),
                    Done (gave_up cfg repo0 FailedDecodeJSON w)})"
  using assms
  by (auto simp: listMdFiles_raw_def listMdFiles_def client_Do_def say_def Let_def
      listing_request_def gave_up_def)

theorem listing_failure_aborts_witness:
  "NewRequest_ok sample_env (contentsURL (TrimPrefix ''https://github.com/owner/gone'' ''https://github.com/''))
   \<and> transport sample_env (listing_request sample_cfg ''https://github.com/owner/gone'') = None
   \<and> listMdFiles_raw sample_env sample_cfg ''https://github.com/owner/gone'' start
       = Done (gave_up sample_cfg ''https://github.com/owner/gone'' FailedSendRequest start)
   \<and> listMdFiles sample_env sample_cfg ''https://github.com/owner/gone'' start
       = Done (gave_up sample_cfg ''https://github.com/owner/gone'' FailedSendRequest start)
   \<and> fsys (gave_up sample_cfg ''https://github.com/owner/gone'' FailedSendRequest start) = fsys start"
proof -
  have a: "NewRequest_ok sample_env
      (contentsURL (TrimPrefix ''https://github.com/owner/gone'' ''https://github.com/''))"
    by (simp add: sample_env_def)
  have b: "transport sample_env (listing_request sample_cfg ''https://github.com/owner/gone'') = None"
    by (simp add: sample_env_def listing_request_def TrimPrefix_def contentsURL_def
        readme_def downloadURL_def)
  have c: "gave_up sample_cfg ''https://github.com/owner/gone'' FailedSendRequest start
      \<noteq> gave_up sample_cfg ''https://github.com/owner/gone'' FailedDecodeJSON start"
    "gave_up sample_cfg ''https://github.com/owner/gone'' FailedSendRequest start
      \<noteq> gave_up sample_cfg ''https://github.com/owner/gone'' FailedReadBody start"
    by (simp_all add: gave_up_def start_def)
  have d: "listMdFiles_raw sample_env sample_cfg ''https://github.com/owner/gone'' start
       = Done (gave_up sample_cfg ''https://github.com/owner/gone'' FailedSendRequest start)"
    by (simp add: listMdFiles_raw_def client_Do_def say_def Let_def a b
        listing_request_def [symmetric] gave_up_def)
  have e: "listMdFiles sample_env sample_cfg ''https://github.com/owner/gone'' start
       = Done (gave_up sample_cfg ''https://github.com/owner/gone'' FailedSendRequest start)"
    by (simp add: listMdFiles_def client_Do_def say_def Let_def a b
        listing_request_def [symmetric] gave_up_def)
  show ?thesis
    using a b d e
      listing_failure_aborts [OF a, of sample_cfg start]
    by (simp add: gave_up_def)
qed

subsection \<open>C7: change detection\<close>

text \<open>
  C7. For a path recorded with an identifier \<open>A\<close> other than the error marker,
  \<open>shouldDownload\<close> answers true exactly when the current identifier differs from \<open>A\<close>
  (in both programs); a candidate with the recorded identifier is reported
  \<open>Skipping file\<close> and leaves the record and the world otherwise untouched.
\<close>

theorem change_detection:
  assumes "lookup history p = Some A" and "A \<noteq> ''ERROR''"
  shows "shouldDownload p B history = (B \<noteq> A)
       \<and> shouldDownload_raw p B history = (B \<noteq> A)
       \<and> (candidate item \<and> Path item = p \<and> Sha item = A \<longrightarrow>
            listMdFiles_item e cfg repo item (history, w)
              = Done (history, say (SkippingFile p) w)
          \<and> listMdFiles_item_raw e cfg repo item (history, w)
              = Done (history, say (SkippingFile p) w))"
proof -
  have s: "shouldDownload p B history = (B \<noteq> A)" for B
    using assms by (auto simp: shouldDownload_def)
  have r: "shouldDownload_raw p B history = (B \<noteq> A)" for B
    using assms by (auto simp: shouldDownload_raw_def)
  show ?thesis
    using s r listMdFiles_item_current [of item history e cfg repo w]
      listMdFiles_item_raw_current [of item history e cfg repo w]
    by (auto simp: candidate_def)
qed

theorem change_detection_witness:
  "lookup \<lparr>Files = Some (Map.empty(''README.md'' \<mapsto> ''sha1''))\<rparr> ''README.md'' = Some ''sha1''
   \<and> ''sha1'' \<noteq> ''ERROR''
   \<and> shouldDownload ''README.md'' ''sha2'' \<lparr>Files = Some (Map.empty(''README.md'' \<mapsto> ''sha1''))\<rparr>
   \<and> \<not> shouldDownload ''README.md'' ''sha1'' \<lparr>Files = Some (Map.empty(''README.md'' \<mapsto> ''sha1''))\<rparr>
   \<and> candidate readme \<and> Path readme = ''README.md'' \<and> Sha readme = ''sha1''
   \<and> listMdFiles_item sample_env sample_cfg ''owner/project'' readme
        (\<lparr>Files = Some (Map.empty(''README.md'' \<mapsto> ''sha1''))\<rparr>, start)
       = Done (\<lparr>Files = Some (Map.empty(''README.md'' \<mapsto> ''sha1''))\<rparr>,
               say (SkippingFile ''README.md'') start)"
proof -
  let ?h = "\<lparr>Files = Some (Map.empty(''README.md'' \<mapsto> ''sha1''))\<rparr>"
  have a: "lookup ?h ''README.md'' = Some ''sha1''" by (simp add: lookup_def)
  have b: "''sha1'' \<noteq> ''ERROR''" by simp
  have c: "candidate readme \<and> Path readme = ''README.md'' \<and> Sha readme = ''sha1''"
    by (simp add: candidate_def readme_def Ext_def)
  show ?thesis
    using a b c
      change_detection [OF a b, of "''sha2''" readme sample_env sample_cfg "''owner/project''" start]
      change_detection [OF a b, of "''sha1''" readme sample_env sample_cfg "''owner/project''" start]
    by simp
qed

subsection \<open>C8: the whole record is saved and nothing is pruned\<close>



subsection \<open>C9: loading a record file that does not decode\<close>

text \<open>
  C9 says that \<^verbatim>\<open>loadHistory\<close> returns an empty record on any failure to read or parse
  the record file, and that such a file never fails the run. Where the file does not open,
  cannot be read, holds no JSON value or holds a value that is not an object, the empty
  record is returned (\<open>loadHistory_empty_when_unreadable\<close>). After a type error it is not:
  for \<^verbatim>\<open>{"files": {"a.md": "abc", "b.md": 1}}\<close> the decoder reports the number, and
  \<^verbatim>\<open>loadHistory\<close> of \<^verbatim>\<open>md-downloader.go\<close> logs the failure and returns the record the
  decoder filled, \<open>a.md\<close> with \<open>abc\<close> and \<open>b.md\<close> with the empty string; the pass goes
  on with that record and saves it (\<open>mistyped_load_command\<close>: the command's
  \<^verbatim>\<open>loadHistory\<close> returns the same). For
  \<^verbatim>\<open>{"files": null}\<close> the decoder reports nothing and leaves a nil map, and the pass
  panics at its first \<^verbatim>\<open>history.Files[item.Path] = item.Sha\<close>.
\<close>

theorem loadHistory_returns_partly_decoded_record:
  "loadHistory_raw sample_env sample_cfg mistyped
     = (recovered, say (FailedParseHistory ''history.json'') mistyped)
   \<and> lookup recovered ''a.md'' = Some ''abc''
   \<and> lookup recovered ''b.md'' = Some []
   \<and> recovered \<noteq> \<lparr>Files = Some Map.empty\<rparr>
   \<and> listMdFiles_raw sample_env sample_cfg ''owner/project'' mistyped
     = Done (saveHistory sample_env sample_cfg recovered_synced after_recovery)
   \<and> lookup recovered_synced ''a.md'' = Some ''abc''
   \<and> lookup recovered_synced ''b.md'' = Some []
   \<and> listMdFiles_raw sample_env sample_cfg ''owner/project'' nulled = Panicked nulled_end"
proof -
  have n: "[''a.md'' \<mapsto> ''abc'', ''b.md'' \<mapsto> []] \<noteq> (Map.empty :: string \<rightharpoonup> string)"
    by (metis fun_upd_same option.distinct(1))
  have r: "recovered \<noteq> \<lparr>Files = Some Map.empty\<rparr>"
    using n by (simp add: recovered_def)
  show ?thesis
    using mistyped_load_raw mistyped_pass nulled_pass r
    by (simp add: lookup_def recovered_def recovered_synced_def)
qed

subsection \<open>C10: the last ignore entry for a repository replaces the earlier ones\<close>

text \<open>
  C10. When the raw entries hold two well-formed entries for the same repository and no
  later well-formed entry for it, \<^verbatim>\<open>cfg.Ignore\<close> maps the repository to the comma-separated
  paths of the second entry only, and \<open>isIgnored\<close> holds exactly for those paths.
\<close>

theorem parseIgnorePaths_last_entry_replaces:
  assumes "CHR '':'' \<notin> set repo"
    and "\<forall>z \<in> set zs. CHR '':'' \<in> set z \<longrightarrow> takeWhile (\<lambda>x. x \<noteq> CHR '':'') z \<noteq> repo"
  shows "Ignore (fst (parseIgnorePaths
            (xs @ [repo @ '':'' @ ps1] @ ys @ [repo @ '':'' @ ps2] @ zs) cfg)) repo
          = Some (Split (CHR '','') ps2)
       \<and> (isIgnored (fst (parseIgnorePaths
            (xs @ [repo @ '':'' @ ps1] @ ys @ [repo @ '':'' @ ps2] @ zs) cfg)) repo p
          \<longleftrightarrow> p \<in> set (Split (CHR '','') ps2))"
proof -
  let ?raw = "xs @ [repo @ '':'' @ ps1] @ ys @ [repo @ '':'' @ ps2] @ zs"
  let ?before = "parseIgnore_loop (xs @ [repo @ '':'' @ ps1] @ ys) (Map.empty, [])"
  have "parseIgnore_loop ?raw (Map.empty, []) =
        parseIgnore_loop zs (parseIgnore_entry (repo @ '':'' @ ps2) ?before)"
    using parseIgnore_loop_append [of "xs @ [repo @ '':'' @ ps1] @ ys" "[repo @ '':'' @ ps2] @ zs"]
      parseIgnore_loop_append [of "[repo @ '':'' @ ps2]" zs]
    by simp
  then have "fst (parseIgnore_loop ?raw (Map.empty, [])) repo = Some (Split (CHR '','') ps2)"
    using parseIgnore_loop_other [OF assms(2)] parseIgnore_entry_wellformed [OF assms(1)]
    by simp
  then have m: "Ignore (fst (parseIgnorePaths ?raw cfg)) repo = Some (Split (CHR '','') ps2)"
    by (simp add: parseIgnorePaths_def Let_def)
  show ?thesis
    using m by (simp add: isIgnored_def isIgnored_loop_set)
qed

theorem parseIgnorePaths_last_entry_replaces_witness:
  "Ignore (fst (parseIgnorePaths
       [''owner/project:a.md,b.md'', ''owner/project:c.md'', ''other/repo:x.md'', ''noColonHere'']
       sample_cfg)) ''owner/project'' = Some [''c.md'']
   \<and> isIgnored (fst (parseIgnorePaths
         [''owner/project:a.md,b.md'', ''owner/project:c.md'', ''other/repo:x.md'', ''noColonHere'']
         sample_cfg)) ''owner/project'' ''c.md''
   \<and> \<not> isIgnored (fst (parseIgnorePaths
         [''owner/project:a.md,b.md'', ''owner/project:c.md'', ''other/repo:x.md'', ''noColonHere'']
         sample_cfg)) ''owner/project'' ''a.md''"
proof -
  have h1: "CHR '':'' \<notin> set ''owner/project''" by simp
  have h2: "\<forall>z \<in> set [''other/repo:x.md'', ''noColonHere''].
      CHR '':'' \<in> set z \<longrightarrow> takeWhile (\<lambda>x. x \<noteq> CHR '':'') z \<noteq> ''owner/project''"
    by simp
  show ?thesis
    using parseIgnorePaths_last_entry_replaces [OF h1 h2, of "[]" "''a.md,b.md''" "[]" "''c.md''"
        sample_cfg "''c.md''"]
      parseIgnorePaths_last_entry_replaces [OF h1 h2, of "[]" "''a.md,b.md''" "[]" "''c.md''"
        sample_cfg "''a.md''"]
    by simp
qed

end
